theory Spec2Isabelle
  imports Complex_Main
begin

section \<open>Values of the JavaScript runtime\<close>

text \<open>
  The server (server.js) works on JSON values: the request body, the text of the
  generative backend once parsed, the rows of the store. A number is an IEEE double in
  the source; the server only tests numbers for truthiness and passes them on, so a
  number is a real here. \<open>JSON.parse\<close> never yields \<open>NaN\<close>. A JavaScript value that
  may be \<open>undefined\<close> is a \<open>json option\<close>, with \<open>None\<close> for \<open>undefined\<close>.
  A string is the list of the bytes of its UTF-8 encoding: two strings are equal when
  their byte lists are, an ASCII character is one byte that occurs in no other
  character, and a character beyond ASCII is two to four bytes.
\<close>

datatype json =
    JNull
  | JBool bool
  | JNum real
  | JStr string
  | JArr "json list"
  | JObj "(string \<times> json) list"

text \<open>The exceptions that reach a handler's \<open>catch\<close> block.\<close>

datatype exn =
    TypeError
  | SyntaxError
  | InvalidFormat
  | GenerationUnavailable
  | StoreError
  | CacheError

text \<open>
  Truthiness, as \<open>!v\<close>, \<open>if (v)\<close> and \<open>v || d\<close> test it: \<open>undefined\<close>, \<open>null\<close>,
  \<open>false\<close>, zero and the empty string are falsy, everything else is truthy.
\<close>

fun truthy :: "json option \<Rightarrow> bool" where
  "truthy None = False"
| "truthy (Some JNull) = False"
| "truthy (Some (JBool b)) = b"
| "truthy (Some (JNum x)) = (x \<noteq> 0)"
| "truthy (Some (JStr s)) = (s \<noteq> [])"
| "truthy (Some (JArr xs)) = True"
| "truthy (Some (JObj kvs)) = True"

text \<open>
  Property access \<open>v.k\<close> for the keys the server reads (\<open>tracks\<close>, \<open>id\<close>,
  \<open>weight\<close>, \<open>reason\<close>): on \<open>null\<close> it throws a TypeError, on an object it is the
  field or \<open>undefined\<close>, on any other value it is \<open>undefined\<close>.
\<close>

fun get_field :: "json \<Rightarrow> string \<Rightarrow> exn + json option" where
  "get_field JNull k = Inl TypeError"
| "get_field (JObj kvs) k = Inr (map_of kvs k)"
| "get_field v k = Inr None"

fun isArray :: "json option \<Rightarrow> bool" where
  "isArray (Some (JArr xs)) = True"
| "isArray v = False"

section \<open>Strings: \<open>trim\<close> and the removal of code fences\<close>

definition newline :: char where
  "newline = CHR 0x0A"

text \<open>
  The characters that \<open>String.prototype.trim\<close> and \<open>parseInt\<close> skip, each as its
  UTF-8 bytes: the white space of ECMAScript (U+0009, U+000B, U+000C, U+FEFF and the
  space separators U+0020, U+00A0, U+1680, U+2000 to U+200A, U+202F, U+205F, U+3000)
  and its line terminators (U+000A, U+000D, U+2028, U+2029).
\<close>

definition white_space :: "string list" where
  "white_space =
     [[CHR 0x09], [CHR 0x0A], [CHR 0x0B], [CHR 0x0C], [CHR 0x0D], [CHR 0x20],
      [CHR 0xC2, CHR 0xA0],
      [CHR 0xE1, CHR 0x9A, CHR 0x80],
      [CHR 0xE2, CHR 0x80, CHR 0x80], [CHR 0xE2, CHR 0x80, CHR 0x81],
      [CHR 0xE2, CHR 0x80, CHR 0x82], [CHR 0xE2, CHR 0x80, CHR 0x83],
      [CHR 0xE2, CHR 0x80, CHR 0x84], [CHR 0xE2, CHR 0x80, CHR 0x85],
      [CHR 0xE2, CHR 0x80, CHR 0x86], [CHR 0xE2, CHR 0x80, CHR 0x87],
      [CHR 0xE2, CHR 0x80, CHR 0x88], [CHR 0xE2, CHR 0x80, CHR 0x89],
      [CHR 0xE2, CHR 0x80, CHR 0x8A],
      [CHR 0xE2, CHR 0x80, CHR 0xA8], [CHR 0xE2, CHR 0x80, CHR 0xA9],
      [CHR 0xE2, CHR 0x80, CHR 0xAF],
      [CHR 0xE2, CHR 0x81, CHR 0x9F],
      [CHR 0xE3, CHR 0x80, CHR 0x80],
      [CHR 0xEF, CHR 0xBB, CHR 0xBF]]"

text \<open>The length of the first of the byte sequences \<open>pats\<close> that \<open>s\<close> starts with, or 0.\<close>

definition match_len :: "string list \<Rightarrow> string \<Rightarrow> nat" where
  "match_len pats s =
     (case find (\<lambda>p. take (length p) s = p) pats of None \<Rightarrow> 0 | Some p \<Rightarrow> length p)"

text \<open>Removes the sequences of \<open>pats\<close> from the front of a string as long as one is there.\<close>

function strip_leading :: "string list \<Rightarrow> string \<Rightarrow> string" where
  "strip_leading pats [] = []"
| "strip_leading pats (c # cs) =
     (if 0 < match_len pats (c # cs)
      then strip_leading pats (drop (match_len pats (c # cs)) (c # cs))
      else c # cs)"
  by pat_completeness auto
termination
  by (relation "measure (\<lambda>(pats, s). length s)") auto

text \<open>
  \<open>String.prototype.trim\<close>: the white space at the front is removed, then the white
  space at the end, read backwards. In UTF-8 the last bytes of a string are those of
  its last character, so a white-space sequence at the end is a white-space character.
\<close>

definition trim :: "string \<Rightarrow> string" where
  "trim s = rev (strip_leading (map rev white_space) (rev (strip_leading white_space s)))"

definition skip_newline :: "string \<Rightarrow> string" where
  "skip_newline s = (case s of [] \<Rightarrow> [] | c # cs \<Rightarrow> if c = newline then cs else s)"

text \<open>
  \<open>s.replace(/pat\n?/g, '')\<close> for a literal \<open>pat\<close>: every match, found from left to
  right and never overlapping an earlier one, is removed together with one newline
  that follows it.
\<close>

function remove_all :: "string \<Rightarrow> string \<Rightarrow> string" where
  "remove_all pat [] = []"
| "remove_all pat (c # cs) =
     (if pat \<noteq> [] \<and> take (length pat) (c # cs) = pat
      then remove_all pat (skip_newline (drop (length pat) (c # cs)))
      else c # remove_all pat cs)"
  by pat_completeness auto
termination
proof (relation "measure (\<lambda>(pat, s). length s)")
  show "wf (measure (\<lambda>(pat, s). length s))" by simp
next
  fix pat :: string and c :: char and cs :: string
  assume "pat \<noteq> [] \<and> take (length pat) (c # cs) = pat"
  then have "0 < length pat" by simp
  then have a: "length (drop (length pat) (c # cs)) < length (c # cs)" by simp
  have b: "length (skip_newline s) \<le> length s" for s :: string
    by (simp add: skip_newline_def split: list.splits)
  from b [of "drop (length pat) (c # cs)"] a
  have "length (skip_newline (drop (length pat) (c # cs))) < length (c # cs)"
    by (rule le_less_trans)
  then show "((pat, skip_newline (drop (length pat) (c # cs))), (pat, c # cs))
      \<in> measure (\<lambda>(pat, s). length s)"
    by simp
next
  fix pat :: string and c :: char and cs :: string
  show "((pat, cs), (pat, c # cs)) \<in> measure (\<lambda>(pat, s). length s)" by simp
qed

text \<open>
  Line 201:
  \<^verbatim>\<open>text = text.replace(/```json\n?/g, '').replace(/```\n?/g, '').trim();\<close>
\<close>

definition clean_response :: "string \<Rightarrow> string" where
  "clean_response text = trim (remove_all ''```'' (remove_all ''```json'' text))"

text \<open>
  Lines 203 to 208: \<open>JSON.parse\<close>, then the check
  \<^verbatim>\<open>if (!geminiResponse.tracks || !Array.isArray(geminiResponse.tracks))\<close>.
  \<open>JSON.parse\<close> belongs to the runtime: it is the parameter \<open>parse\<close>, with \<open>None\<close>
  where it throws a SyntaxError. The result is the array of selection records.
\<close>

definition validate :: "(string \<Rightarrow> json option) \<Rightarrow> string \<Rightarrow> exn + json list" where
  "validate parse text =
     (case parse (clean_response text) of
        None \<Rightarrow> Inl SyntaxError
      | Some geminiResponse \<Rightarrow>
          (case get_field geminiResponse ''tracks'' of
             Inl x \<Rightarrow> Inl x
           | Inr ts \<Rightarrow>
               if \<not> truthy ts \<or> \<not> isArray ts then Inl InvalidFormat
               else (case ts of Some (JArr sels) \<Rightarrow> Inr sels | _ \<Rightarrow> Inl InvalidFormat)))"

section \<open>The store, the cache and the responses\<close>

text \<open>
  The rows of the three tables (the schema is in the README). Columns that the store
  fills and the server never reads (an entry's own id and timestamp, a track's
  duration) are left out. A weight is kept as the JSON value the server sends.
\<close>

record track =
  track_id :: string
  filename :: string
  original_name :: string
  storage_path :: string
  file_size :: nat
  upload_date :: nat
  selection_count :: int

record playlist =
  playlist_id :: string
  mood_prompt :: string
  created_at :: nat

record playlist_track =
  pt_playlist_id :: string
  pt_track_id :: string
  position :: nat
  weight :: json

text \<open>
  Everything a handler can read or change: the tables, the bucket \<open>music-files\<close>, the
  Redis key \<open>top-tracks\<close> with the second at which it expires, whether Redis answers,
  and the number of calls made to the generative backend. The cached value is the JSON
  text of a list of tracks in the source; \<open>JSON.stringify\<close> of an array is never the
  empty string and \<open>JSON.parse\<close> gives the rows back, so the list itself is kept.
  The relational store is taken as reliable: an operation fails only where the store
  defines an error (\<open>.single()\<close> on a result that is not one row, a row it rejects).
\<close>

record world =
  tracks :: "track list"
  playlists :: "playlist list"
  playlist_tracks :: "playlist_track list"
  music_files :: "string list"
  redis_up :: bool
  top_tracks_key :: "(track list \<times> nat) option"
  llm_calls :: nat

text \<open>
  One element of the \<open>tracks\<close> array of the answer of the generation route:
  \<^verbatim>\<open>{...track, weight: selectedTrack.weight, reason: selectedTrack.reason, position: i + 1}\<close>
\<close>

record selected =
  sel_track :: track
  sel_weight :: "json option"
  sel_reason :: "json option"
  sel_position :: nat

datatype body =
    Error string
  | ErrorDetails string exn
  | Message string
  | Tracks "track list"
  | Generated string string nat "selected list"
  | PlaylistBody playlist "(playlist_track \<times> track option) list"

type_synonym response = "nat \<times> body"

text \<open>
  What a generation request meets outside the server: the outcome of
  \<open>generateContent\<close> and \<open>response.text()\<close>, \<open>JSON.parse\<close>, whether the store takes a
  row of \<open>playlist_tracks\<close> (\<open>ptError\<close> is set when it does not), the id the store
  gives the new playlist, and the clock.
\<close>

record env =
  reply :: "exn + string"
  parse :: "string \<Rightarrow> json option"
  accepts :: "playlist_track \<Rightarrow> bool"
  new_id :: string
  now :: nat

definition redis_get :: "nat \<Rightarrow> world \<Rightarrow> exn + track list option" where
  "redis_get t w =
     (if redis_up w
      then Inr (case top_tracks_key w of
                  None \<Rightarrow> None
                | Some (v, expiry) \<Rightarrow> if t < expiry then Some v else None)
      else Inl CacheError)"

definition redis_setex :: "nat \<Rightarrow> nat \<Rightarrow> track list \<Rightarrow> world \<Rightarrow> exn + world" where
  "redis_setex t ttl v w =
     (if redis_up w then Inr (w\<lparr>top_tracks_key := Some (v, t + ttl)\<rparr>) else Inl CacheError)"

definition redis_del :: "world \<Rightarrow> exn + world" where
  "redis_del w = (if redis_up w then Inr (w\<lparr>top_tracks_key := None\<rparr>) else Inl CacheError)"

text \<open>\<open>.single()\<close>: the one row of the result, an error on no row or several.\<close>

definition single :: "'a list \<Rightarrow> exn + 'a" where
  "single rows = (case rows of [r] \<Rightarrow> Inr r | _ \<Rightarrow> Inl StoreError)"

section \<open>POST /api/playlists/generate\<close>

text \<open>
  The request body is a JSON object; \<open>mood\<close> is its field of that name, \<open>None\<close> when
  the body has none. Line 146, \<^verbatim>\<open>if (!mood || mood.trim() === '')\<close>: \<open>Inr None\<close>
  when the test holds, \<open>Inr (Some s)\<close> for a mood that passes, a TypeError for a truthy
  value with no \<open>trim\<close> method.
\<close>

fun check_mood :: "json option \<Rightarrow> exn + string option" where
  "check_mood (Some (JStr s)) = (if s = [] \<or> trim s = [] then Inr None else Inr (Some s))"
| "check_mood mood = (if \<not> truthy mood then Inr None else Inl TypeError)"

text \<open>\<open>v || d\<close>\<close>

fun js_or :: "json option \<Rightarrow> json \<Rightarrow> json" where
  "js_or None d = d"
| "js_or (Some v) d = (if truthy (Some v) then v else d)"

text \<open>
  \<^verbatim>\<open>.update({ selection_count: n }).eq('id', tid)\<close>; the result is not looked at.
\<close>

definition update_selection_count :: "string \<Rightarrow> int \<Rightarrow> world \<Rightarrow> world" where
  "update_selection_count tid n w =
     w\<lparr>tracks := map (\<lambda>t. if track_id t = tid then t\<lparr>selection_count := n\<rparr> else t) (tracks w)\<rparr>"

text \<open>
  The body of the loop of lines 223 to 259, for the record \<open>selectedTrack\<close> at index
  \<open>i\<close>: \<open>tracks\<close> is the list read at line 151, \<open>pid\<close> the id of the new playlist,
  \<open>out\<close> the array \<open>playlistTracks\<close>. \<open>Inl\<close> is an exception thrown by the body.
\<close>

definition loop_body ::
  "env \<Rightarrow> track list \<Rightarrow> string \<Rightarrow> nat \<Rightarrow> json \<Rightarrow> selected list \<Rightarrow> world
    \<Rightarrow> (exn + selected list) \<times> world" where
  "loop_body e snapshot pid i selectedTrack out w =
     (case get_field selectedTrack ''id'' of
        Inl x \<Rightarrow> (Inl x, w)
      | Inr sid \<Rightarrow>
         (case find (\<lambda>t. Some (JStr (track_id t)) = sid) snapshot of
            None \<Rightarrow> (Inr out, w)
          | Some tr \<Rightarrow>
             (case get_field selectedTrack ''weight'' of
                Inl x \<Rightarrow> (Inl x, w)
              | Inr wt \<Rightarrow>
                 (let row = \<lparr>pt_playlist_id = pid, pt_track_id = track_id tr,
                             position = i + 1, weight = js_or wt (JNum 0.5)\<rparr>
                  in if \<not> accepts e row then (Inr out, w)
                     else
                       (case get_field selectedTrack ''reason'' of
                          Inl x \<Rightarrow> (Inl x, w)
                        | Inr rs \<Rightarrow>
                            (Inr (out @ [\<lparr>sel_track = tr, sel_weight = wt, sel_reason = rs,
                                          sel_position = i + 1\<rparr>]),
                             update_selection_count (track_id tr) (selection_count tr + 1)
                               (w\<lparr>playlist_tracks := playlist_tracks w @ [row]\<rparr>)))))))"

text \<open>
  The loop from index \<open>i\<close> on. An exception leaves the loop; the writes made before it
  stay in the store.
\<close>

fun insert_tracks ::
  "env \<Rightarrow> track list \<Rightarrow> string \<Rightarrow> nat \<Rightarrow> json list \<Rightarrow> selected list \<Rightarrow> world
    \<Rightarrow> (exn + selected list) \<times> world" where
  "insert_tracks e snapshot pid i [] out w = (Inr out, w)"
| "insert_tracks e snapshot pid i (selectedTrack # rest) out w =
     (case loop_body e snapshot pid i selectedTrack out w of
        (Inl x, w') \<Rightarrow> (Inl x, w')
      | (Inr out', w') \<Rightarrow> insert_tracks e snapshot pid (i + 1) rest out' w')"

text \<open>
  The \<open>try\<close> block of the route (lines 144 to 269). The prompt sent to the backend is
  not built here: the backend's answer is the parameter \<open>reply\<close>, and a call is
  counted in \<open>llm_calls\<close>.
\<close>

definition generate_try :: "env \<Rightarrow> json option \<Rightarrow> world \<Rightarrow> (exn + response) \<times> world" where
  "generate_try e mood w =
     (case check_mood mood of
        Inl x \<Rightarrow> (Inl x, w)
      | Inr None \<Rightarrow> (Inr (400, Error ''Mood prompt is required''), w)
      | Inr (Some m) \<Rightarrow>
         (let snapshot = tracks w in
          if length snapshot = 0
          then (Inr (400, Error ''No tracks available. Please upload some music first.''), w)
          else
            (let w1 = w\<lparr>llm_calls := llm_calls w + 1\<rparr> in
             case reply e of
               Inl x \<Rightarrow> (Inl x, w1)
             | Inr text \<Rightarrow>
                (case validate (parse e) text of
                   Inl x \<Rightarrow> (Inl x, w1)
                 | Inr sels \<Rightarrow>
                    (let pl = \<lparr>playlist_id = new_id e, mood_prompt = m, created_at = now e\<rparr>;
                         w2 = w1\<lparr>playlists := playlists w1 @ [pl]\<rparr>
                     in case insert_tracks e snapshot (playlist_id pl) 0 sels [] w2 of
                          (Inl x, w3) \<Rightarrow> (Inl x, w3)
                        | (Inr playlistTracks, w3) \<Rightarrow>
                           (case redis_del w3 of
                              Inl x \<Rightarrow> (Inl x, w3)
                            | Inr w4 \<Rightarrow>
                               (Inr (200, Generated (playlist_id pl) m (created_at pl)
                                            playlistTracks), w4)))))))"

text \<open>The \<open>catch\<close> block (lines 271 to 277).\<close>

definition generate :: "env \<Rightarrow> json option \<Rightarrow> world \<Rightarrow> response \<times> world" where
  "generate e mood w =
     (case generate_try e mood w of
        (Inl x, w') \<Rightarrow> ((500, ErrorDetails ''Failed to generate playlist'' x), w')
      | (Inr r, w') \<Rightarrow> (r, w'))"

section \<open>GET /api/stats/top-tracks\<close>

text \<open>
  \<open>parseInt\<close> of the query parameter \<open>limit\<close>, a string when it is given once
  (\<open>None\<close> is \<open>NaN\<close>): leading white space, a sign, a \<open>0x\<close> prefix for base 16, then
  the longest run of digits; \<open>NaN\<close> when there is no digit or no parameter. The
  source's result is a double, exact up to \<open>2^53\<close>.
\<close>

definition digit_of :: "nat \<Rightarrow> char \<Rightarrow> nat option" where
  "digit_of radix c =
     (let n = (of_char c :: nat);
          v = (if 48 \<le> n \<and> n \<le> 57 then Some (n - 48)
               else if 97 \<le> n \<and> n \<le> 122 then Some (n - 87)
               else if 65 \<le> n \<and> n \<le> 90 then Some (n - 55)
               else None)
      in case v of None \<Rightarrow> None | Some d \<Rightarrow> if d < radix then Some d else None)"

fun read_digits :: "nat \<Rightarrow> string \<Rightarrow> nat list" where
  "read_digits radix [] = []"
| "read_digits radix (c # cs) =
     (case digit_of radix c of None \<Rightarrow> [] | Some d \<Rightarrow> d # read_digits radix cs)"

definition parseInt :: "string option \<Rightarrow> int option" where
  "parseInt q =
     (case q of
        None \<Rightarrow> None
      | Some s \<Rightarrow>
         (let s1 = strip_leading white_space s;
              signed = (s1 \<noteq> [] \<and> (hd s1 = CHR ''-'' \<or> hd s1 = CHR ''+''));
              neg = (s1 \<noteq> [] \<and> hd s1 = CHR ''-'');
              s2 = (if signed then tl s1 else s1);
              hex = (take 2 s2 = ''0x'' \<or> take 2 s2 = ''0X'');
              radix = (if hex then 16 else 10);
              ds = read_digits radix (if hex then drop 2 s2 else s2);
              n = int (foldl (\<lambda>a d. a * radix + d) 0 ds)
          in if ds = [] then None else Some (if neg then - n else n)))"

text \<open>\<^verbatim>\<open>parseInt(req.query.limit) || 10\<close>\<close>

definition limit_of :: "string option \<Rightarrow> int" where
  "limit_of q = (case parseInt q of None \<Rightarrow> 10 | Some n \<Rightarrow> if n = 0 then 10 else n)"

text \<open>
  Lines 295 to 300:
  \<^verbatim>\<open>.select('*').gt('selection_count', 0).order('selection_count', { ascending: false }).limit(limit)\<close>
  The store leaves the order of tracks with equal counts open; they keep the order of
  the table here. A negative limit is not a range of rows: the store answers it with
  an error here, and no property below is stated for a negative limit.
\<close>

definition ranked :: "track list \<Rightarrow> track list" where
  "ranked ts = sort_key (\<lambda>t. - selection_count t) (filter (\<lambda>t. 0 < selection_count t) ts)"

definition top_query :: "int \<Rightarrow> world \<Rightarrow> exn + track list" where
  "top_query limit w =
     (if limit < 0 then Inl StoreError else Inr (take (nat limit) (ranked (tracks w))))"

definition top_tracks_try :: "nat \<Rightarrow> string option \<Rightarrow> world \<Rightarrow> (exn + response) \<times> world" where
  "top_tracks_try t q w =
     (let limit = limit_of q in
      case redis_get t w of
        Inl x \<Rightarrow> (Inl x, w)
      | Inr (Some cached) \<Rightarrow> (Inr (200, Tracks cached), w)
      | Inr None \<Rightarrow>
         (case top_query limit w of
            Inl x \<Rightarrow> (Inl x, w)
          | Inr topTracks \<Rightarrow>
             (case redis_setex t 300 topTracks w of
                Inl x \<Rightarrow> (Inl x, w)
              | Inr w' \<Rightarrow> (Inr (200, Tracks topTracks), w'))))"

definition top_tracks :: "nat \<Rightarrow> string option \<Rightarrow> world \<Rightarrow> response \<times> world" where
  "top_tracks t q w =
     (case top_tracks_try t q w of
        (Inl x, w') \<Rightarrow> ((500, Error ''Failed to fetch top tracks''), w')
      | (Inr r, w') \<Rightarrow> (r, w'))"

section \<open>GET /api/playlists/:id and DELETE /api/tracks/:id\<close>

definition get_playlist :: "string \<Rightarrow> world \<Rightarrow> response \<times> world" where
  "get_playlist pid w =
     (case single (filter (\<lambda>p. playlist_id p = pid) (playlists w)) of
        Inl x \<Rightarrow> ((500, Error ''Failed to fetch playlist''), w)
      | Inr p \<Rightarrow>
         ((200, PlaylistBody p
                  (map (\<lambda>r. (r, find (\<lambda>t. track_id t = pt_track_id r) (tracks w)))
                     (filter (\<lambda>r. pt_playlist_id r = pid) (playlist_tracks w)))), w))"

text \<open>
  The deletion of a track row takes the entries that reference it along
  (\<open>ON DELETE CASCADE\<close> in the schema). A failure to remove the file is only logged.
\<close>

definition delete_track :: "string \<Rightarrow> world \<Rightarrow> response \<times> world" where
  "delete_track tid w =
     (case single (filter (\<lambda>t. track_id t = tid) (tracks w)) of
        Inl x \<Rightarrow> ((404, Error ''Track not found''), w)
      | Inr tr \<Rightarrow>
         (let w1 = w\<lparr>music_files := removeAll (storage_path tr) (music_files w)\<rparr>;
              w2 = w1\<lparr>tracks := filter (\<lambda>t. track_id t \<noteq> tid) (tracks w1),
                      playlist_tracks := filter (\<lambda>r. pt_track_id r \<noteq> tid) (playlist_tracks w1)\<rparr>
          in case redis_del w2 of
               Inl x \<Rightarrow> ((500, Error ''Failed to delete track''), w2)
             | Inr w3 \<Rightarrow> ((200, Message ''Track deleted successfully''), w3)))"

section \<open>Notions used to state the properties\<close>

text \<open>The value of \<open>v.k\<close> where the access does not throw.\<close>

definition field_of :: "json \<Rightarrow> string \<Rightarrow> json option" where
  "field_of v k = (case get_field v k of Inl x \<Rightarrow> None | Inr r \<Rightarrow> r)"

text \<open>
  A selection record resolves when \<^verbatim>\<open>tracks.find(t => t.id === selectedTrack.id)\<close>
  finds a track.
\<close>

definition resolves :: "track list \<Rightarrow> json \<Rightarrow> bool" where
  "resolves snapshot selectedTrack =
     (case get_field selectedTrack ''id'' of
        Inl x \<Rightarrow> False
      | Inr sid \<Rightarrow> find (\<lambda>t. Some (JStr (track_id t)) = sid) snapshot \<noteq> None)"

text \<open>The usage counter of the track with id \<open>x\<close>, if the table has one.\<close>

definition count_in :: "string \<Rightarrow> track list \<Rightarrow> int option" where
  "count_in x ts = map_option selection_count (find (\<lambda>t. track_id t = x) ts)"

text \<open>Generation requests served one after the other.\<close>

fun generate_all :: "(env \<times> json option) list \<Rightarrow> world \<Rightarrow> response list \<times> world" where
  "generate_all [] w = ([], w)"
| "generate_all ((e, mood) # reqs) w =
     (case generate e mood w of
        (r, w') \<Rightarrow> (case generate_all reqs w' of (rs, w'') \<Rightarrow> (r # rs, w'')))"

text \<open>The answer is a created playlist in which the track with id \<open>x\<close> appears.\<close>

fun selects :: "string \<Rightarrow> response \<Rightarrow> bool" where
  "selects x (status, Generated pid m c playlistTracks) =
     (status = 200 \<and> x \<in> set (map (\<lambda>s. track_id (sel_track s)) playlistTracks))"
| "selects x r = False"

section \<open>Sample data\<close>

definition track_A :: track where
  "track_A = \<lparr>track_id = ''A'', filename = ''u1-A.mp3'', original_name = ''A.mp3'',
     storage_path = ''music/u1-A.mp3'', file_size = 4096, upload_date = 1,
     selection_count = 0\<rparr>"

definition track_B :: track where
  "track_B = \<lparr>track_id = ''B'', filename = ''u2-B.wav'', original_name = ''B.wav'',
     storage_path = ''music/u2-B.wav'', file_size = 8192, upload_date = 2,
     selection_count = 3\<rparr>"

text \<open>A catalog of two tracks, no playlist, and a cached snapshot that expires at 100.\<close>

definition world0 :: world where
  "world0 = \<lparr>tracks = [track_A, track_B], playlists = [], playlist_tracks = [],
     music_files = [''music/u1-A.mp3'', ''music/u2-B.wav''], redis_up = True,
     top_tracks_key = Some ([track_B], 100), llm_calls = 0\<rparr>"

definition empty_world :: world where
  "empty_world = \<lparr>tracks = [], playlists = [], playlist_tracks = [], music_files = [],
     redis_up = True, top_tracks_key = None, llm_calls = 0\<rparr>"

text \<open>
  A backend whose answer, inside a code fence, parses to an object whose \<open>tracks\<close> are
  \<open>sels\<close>, a store that takes every row and names the new playlist \<open>P1\<close>, at second 7.
\<close>

definition sample_reply :: string where
  "sample_reply = ''```json'' @ [newline] @ ''R'' @ [newline] @ ''```''"

definition env_of :: "json list \<Rightarrow> env" where
  "env_of sels = \<lparr>reply = Inr sample_reply,
     parse = (\<lambda>s. if s = ''R'' then Some (JObj [(''tracks'', JArr sels)]) else None),
     accepts = (\<lambda>r. True), new_id = ''P1'', now = 7\<rparr>"

text \<open>The same backend and store at second 9, where the new playlist is \<open>P2\<close>.\<close>

definition later_env_of :: "json list \<Rightarrow> env" where
  "later_env_of sels = (env_of sels)\<lparr>new_id := ''P2'', now := 9\<rparr>"

text \<open>
  The same backend in front of a store that takes a row of \<open>playlist_tracks\<close> only
  when the weight sent is a number (the column is \<open>weight FLOAT\<close> in the schema).
\<close>

definition typed_env_of :: "json list \<Rightarrow> env" where
  "typed_env_of sels =
     (env_of sels)\<lparr>accepts := (\<lambda>r. case weight r of JNum x \<Rightarrow> True | _ \<Rightarrow> False)\<rparr>"

definition pick :: "string \<Rightarrow> json \<Rightarrow> json" where
  "pick tid w = JObj [(''id'', JStr tid), (''weight'', w)]"

section \<open>White space\<close>

lemmas trim_defs = trim_def match_len_def white_space_def

lemma match_len_Nil: "match_len pats [] = 0"
  by (auto simp: match_len_def find_Some_iff split: option.splits)

lemma strip_leading_unfold:
  "strip_leading pats s =
     (if 0 < match_len pats s then strip_leading pats (drop (match_len pats s) s) else s)"
  by (cases s) (simp_all add: match_len_Nil)

text \<open>
  No white-space character is the start of another one, so a string that begins with
  one matches exactly that one.
\<close>

lemma match_len_white_space:
  assumes "p \<in> set white_space"
  shows "match_len white_space (p @ rest) = length p"
proof -
  have "list_all (\<lambda>p. \<forall>rest. match_len white_space (p @ rest) = length p) white_space"
    unfolding white_space_def match_len_def by simp
  with assms show ?thesis by (simp add: list_all_iff)
qed

lemma white_space_not_empty: "p \<in> set white_space \<Longrightarrow> p \<noteq> []"
  by (auto simp: white_space_def)

lemma strip_leading_white_space_only:
  "set ps \<subseteq> set white_space \<Longrightarrow> strip_leading white_space (concat ps) = []"
proof (induction ps)
  case Nil
  then show ?case by simp
next
  case (Cons p ps)
  then have p: "p \<in> set white_space" and ps: "set ps \<subseteq> set white_space" by simp_all
  from match_len_white_space [OF p] white_space_not_empty [OF p]
  have "match_len white_space (p @ concat ps) = length p" and "0 < length p" by simp_all
  then have "strip_leading white_space (p @ concat ps) = strip_leading white_space (concat ps)"
    by (subst strip_leading_unfold) simp
  with Cons.IH [OF ps] show ?case by simp
qed

lemma trim_white_space_only: "set ps \<subseteq> set white_space \<Longrightarrow> trim (concat ps) = []"
  by (simp add: trim_def strip_leading_white_space_only)

section \<open>The loop over the selection records\<close>

lemma loop_body_frame:
  "loop_body e snapshot pid i sel out w = (r, w') \<Longrightarrow>
     playlists w' = playlists w \<and> music_files w' = music_files w \<and> redis_up w' = redis_up w
     \<and> top_tracks_key w' = top_tracks_key w \<and> llm_calls w' = llm_calls w"
  by (auto simp: loop_body_def update_selection_count_def Let_def
      split: sum.splits option.splits if_splits)

lemma insert_tracks_frame:
  "insert_tracks e snapshot pid i sels out w = (r, w') \<Longrightarrow>
     playlists w' = playlists w \<and> music_files w' = music_files w \<and> redis_up w' = redis_up w
     \<and> top_tracks_key w' = top_tracks_key w \<and> llm_calls w' = llm_calls w"
proof (induction sels arbitrary: i out w)
  case Nil
  then show ?case by simp
next
  case (Cons sel rest)
  obtain r1 w1 where b: "loop_body e snapshot pid i sel out w = (r1, w1)"
    by (cases "loop_body e snapshot pid i sel out w")
  note f = loop_body_frame [OF b]
  show ?case
  proof (cases r1)
    case (Inl x)
    with Cons.prems b have "w' = w1" by simp
    with f show ?thesis by simp
  next
    case (Inr out1)
    with Cons.prems b have "insert_tracks e snapshot pid (i + 1) rest out1 w1 = (r, w')" by simp
    from Cons.IH [OF this] f show ?thesis by simp
  qed
qed

lemma loop_body_unresolved:
  "\<not> resolves snapshot sel \<Longrightarrow> sel \<noteq> JNull \<Longrightarrow> loop_body e snapshot pid i sel out w = (Inr out, w)"
  by (cases sel) (auto simp: loop_body_def resolves_def split: sum.splits option.splits)

lemma loop_body_resolved:
  assumes "resolves snapshot sel" and "accepts e
     \<lparr>pt_playlist_id = pid,
       pt_track_id = track_id (the (find (\<lambda>t. Some (JStr (track_id t)) = field_of sel ''id'') snapshot)),
       position = i + 1, weight = js_or (field_of sel ''weight'') (JNum 0.5)\<rparr>"
  shows "\<exists>tr. find (\<lambda>t. Some (JStr (track_id t)) = field_of sel ''id'') snapshot = Some tr \<and>
     loop_body e snapshot pid i sel out w =
       (Inr (out @ [\<lparr>sel_track = tr, sel_weight = field_of sel ''weight'',
                     sel_reason = field_of sel ''reason'', sel_position = i + 1\<rparr>]),
        update_selection_count (track_id tr) (selection_count tr + 1)
          (w\<lparr>playlist_tracks := playlist_tracks w @
              [\<lparr>pt_playlist_id = pid, pt_track_id = track_id tr, position = i + 1,
                weight = js_or (field_of sel ''weight'') (JNum 0.5)\<rparr>]\<rparr>))"
  using assms
  by (cases sel) (auto simp: loop_body_def resolves_def field_of_def Let_def split: sum.splits option.splits)


lemma loop_body_null: "loop_body e snapshot pid i JNull out w = (Inl TypeError, w)"
  by (simp add: loop_body_def)

lemma find_id_holds:
  "find (\<lambda>t. Some (JStr (track_id t)) = sid) snapshot = Some tr \<Longrightarrow> sid = Some (JStr (track_id tr))"
  by (auto simp: find_Some_iff)

lemma playlist_tracks_update [simp]:
  "playlist_tracks (update_selection_count tid n w) = playlist_tracks w"
  by (simp add: update_selection_count_def)

lemma insert_tracks_rows:
  assumes "\<forall>r. accepts e r"
    and "insert_tracks e snapshot pid i sels out w = (Inr out', w')"
  shows "\<exists>rows. playlist_tracks w' = playlist_tracks w @ rows
     \<and> map position rows =
         map (\<lambda>(k, sel). k + 1) (filter (\<lambda>(k, sel). resolves snapshot sel) (enumerate i sels))
     \<and> map weight rows =
         map (\<lambda>(k, sel). js_or (field_of sel ''weight'') (JNum 0.5))
           (filter (\<lambda>(k, sel). resolves snapshot sel) (enumerate i sels))
     \<and> map (\<lambda>r. Some (JStr (pt_track_id r))) rows =
         map (\<lambda>(k, sel). field_of sel ''id'')
           (filter (\<lambda>(k, sel). resolves snapshot sel) (enumerate i sels))
     \<and> map pt_playlist_id rows =
         map (\<lambda>(k, sel). pid) (filter (\<lambda>(k, sel). resolves snapshot sel) (enumerate i sels))"
  using assms(2)
proof (induction sels arbitrary: i out w)
  case Nil
  then show ?case by simp
next
  case (Cons sel rest)
  have nn: "sel \<noteq> JNull"
    using Cons.prems by (auto simp: loop_body_null)
  show ?case
  proof (cases "resolves snapshot sel")
    case False
    from loop_body_unresolved [OF False nn] Cons.prems
    have "insert_tracks e snapshot pid (i + 1) rest out w = (Inr out', w')" by simp
    from Cons.IH [OF this] False show ?thesis by simp
  next
    case True
    from assms(1) have acc: "accepts e r" for r by simp
    from loop_body_resolved [OF True acc, of pid i out w]
    obtain tr where tr: "find (\<lambda>t. Some (JStr (track_id t)) = field_of sel ''id'') snapshot = Some tr"
      and b: "loop_body e snapshot pid i sel out w =
       (Inr (out @ [\<lparr>sel_track = tr, sel_weight = field_of sel ''weight'',
                     sel_reason = field_of sel ''reason'', sel_position = i + 1\<rparr>]),
        update_selection_count (track_id tr) (selection_count tr + 1)
          (w\<lparr>playlist_tracks := playlist_tracks w @
              [\<lparr>pt_playlist_id = pid, pt_track_id = track_id tr, position = i + 1,
                weight = js_or (field_of sel ''weight'') (JNum 0.5)\<rparr>]\<rparr>))"
      by blast
    from b Cons.prems obtain out1 w1 where
      r: "insert_tracks e snapshot pid (i + 1) rest out1 w1 = (Inr out', w')"
      and w1: "playlist_tracks w1 = playlist_tracks w @
              [\<lparr>pt_playlist_id = pid, pt_track_id = track_id tr, position = i + 1,
                weight = js_or (field_of sel ''weight'') (JNum 0.5)\<rparr>]"
      by simp
    from Cons.IH [OF r] obtain rows where
      rows: "playlist_tracks w' = playlist_tracks w1 @ rows"
        "map position rows =
         map (\<lambda>(k, sel). k + 1) (filter (\<lambda>(k, sel). resolves snapshot sel) (enumerate (i + 1) rest))"
        "map weight rows =
         map (\<lambda>(k, sel). js_or (field_of sel ''weight'') (JNum 0.5))
           (filter (\<lambda>(k, sel). resolves snapshot sel) (enumerate (i + 1) rest))"
        "map (\<lambda>r. Some (JStr (pt_track_id r))) rows =
         map (\<lambda>(k, sel). field_of sel ''id'')
           (filter (\<lambda>(k, sel). resolves snapshot sel) (enumerate (i + 1) rest))"
        "map pt_playlist_id rows =
         map (\<lambda>(k, sel). pid) (filter (\<lambda>(k, sel). resolves snapshot sel) (enumerate (i + 1) rest))"
      by blast
    let ?row = "\<lparr>pt_playlist_id = pid, pt_track_id = track_id tr, position = i + 1,
                weight = js_or (field_of sel ''weight'') (JNum 0.5)\<rparr>"
    have "playlist_tracks w' = playlist_tracks w @ (?row # rows)"
      using rows(1) w1 by simp
    moreover have "field_of sel ''id'' = Some (JStr (track_id tr))"
      using find_id_holds [OF tr] .
    ultimately show ?thesis
      using rows(2-5) True
      by (intro exI [of _ "?row # rows"]) simp
  qed
qed


lemma loop_body_cases:
  assumes "loop_body e snapshot pid i sel out w = (Inr out', w')"
  shows "(out' = out \<and> w' = w) \<or>
     (\<exists>tr wt rs. find (\<lambda>t. Some (JStr (track_id t)) = field_of sel ''id'') snapshot = Some tr
        \<and> out' = out @ [\<lparr>sel_track = tr, sel_weight = wt, sel_reason = rs, sel_position = i + 1\<rparr>]
        \<and> w' = update_selection_count (track_id tr) (selection_count tr + 1)
             (w\<lparr>playlist_tracks := playlist_tracks w @
                [\<lparr>pt_playlist_id = pid, pt_track_id = track_id tr, position = i + 1,
                  weight = js_or wt (JNum 0.5)\<rparr>]\<rparr>))"
  using assms
  by (cases sel)
    (auto simp: loop_body_def field_of_def Let_def split: sum.splits option.splits if_splits)

lemma count_in_map_update:
  "count_in x (map (\<lambda>t. if track_id t = tid then t\<lparr>selection_count := n\<rparr> else t) ts) =
     (if x = tid then map_option (\<lambda>c. n) (count_in x ts) else count_in x ts)"
  by (induction ts) (auto simp: count_in_def)

lemma count_in_update:
  "count_in x (tracks (update_selection_count tid n w)) =
     (if x = tid then map_option (\<lambda>c. n) (count_in x (tracks w)) else count_in x (tracks w))"
  by (simp add: update_selection_count_def count_in_map_update)

lemma count_in_found:
  assumes "find (\<lambda>t. Some (JStr (track_id t)) = sid) snapshot = Some tr"
  shows "count_in (track_id tr) snapshot = Some (selection_count tr)"
proof -
  from find_id_holds [OF assms] have "sid = Some (JStr (track_id tr))" .
  with assms have "find (\<lambda>t. track_id t = track_id tr) snapshot = Some tr"
    by (simp add: eq_commute [of "track_id tr"])
  then show ?thesis by (simp add: count_in_def)
qed

lemma insert_tracks_counts:
  assumes "insert_tracks e snapshot pid i sels out w = (Inr out', w')"
  shows "\<exists>new rows. out' = out @ new \<and> playlist_tracks w' = playlist_tracks w @ rows
     \<and> map pt_track_id rows = map (\<lambda>s. track_id (sel_track s)) new
     \<and> (\<forall>x. count_in x (tracks w') =
          (if x \<in> set (map (\<lambda>s. track_id (sel_track s)) new)
           then (case count_in x (tracks w) of
                   None \<Rightarrow> None
                 | Some c \<Rightarrow> map_option (\<lambda>c. c + 1) (count_in x snapshot))
           else count_in x (tracks w)))"
  using assms
proof (induction sels arbitrary: i out w)
  case Nil
  then show ?case by simp
next
  case (Cons sel rest)
  obtain r1 w1 where b: "loop_body e snapshot pid i sel out w = (r1, w1)"
    by (cases "loop_body e snapshot pid i sel out w")
  with Cons.prems obtain out1 where r1: "r1 = Inr out1"
    by (cases r1) auto
  with Cons.prems b have r: "insert_tracks e snapshot pid (i + 1) rest out1 w1 = (Inr out', w')"
    by simp
  from Cons.IH [OF r] obtain new rows where ih:
    "out' = out1 @ new" "playlist_tracks w' = playlist_tracks w1 @ rows"
    "map pt_track_id rows = map (\<lambda>s. track_id (sel_track s)) new"
    "\<And>x. count_in x (tracks w') =
          (if x \<in> set (map (\<lambda>s. track_id (sel_track s)) new)
           then (case count_in x (tracks w1) of
                   None \<Rightarrow> None
                 | Some c \<Rightarrow> map_option (\<lambda>c. c + 1) (count_in x snapshot))
           else count_in x (tracks w1))"
    by blast
  from loop_body_cases [OF b [unfolded r1]]
  show ?case
  proof
    assume "out1 = out \<and> w1 = w"
    with ih show ?thesis by blast
  next
    assume "\<exists>tr wt rs. find (\<lambda>t. Some (JStr (track_id t)) = field_of sel ''id'') snapshot = Some tr
        \<and> out1 = out @ [\<lparr>sel_track = tr, sel_weight = wt, sel_reason = rs, sel_position = i + 1\<rparr>]
        \<and> w1 = update_selection_count (track_id tr) (selection_count tr + 1)
             (w\<lparr>playlist_tracks := playlist_tracks w @
                [\<lparr>pt_playlist_id = pid, pt_track_id = track_id tr, position = i + 1,
                  weight = js_or wt (JNum 0.5)\<rparr>]\<rparr>)"
    then obtain tr wt rs where
      tr: "find (\<lambda>t. Some (JStr (track_id t)) = field_of sel ''id'') snapshot = Some tr"
      and o1: "out1 = out @ [\<lparr>sel_track = tr, sel_weight = wt, sel_reason = rs, sel_position = i + 1\<rparr>]"
      and w1: "w1 = update_selection_count (track_id tr) (selection_count tr + 1)
             (w\<lparr>playlist_tracks := playlist_tracks w @
                [\<lparr>pt_playlist_id = pid, pt_track_id = track_id tr, position = i + 1,
                  weight = js_or wt (JNum 0.5)\<rparr>]\<rparr>)"
      by blast
    let ?s = "\<lparr>sel_track = tr, sel_weight = wt, sel_reason = rs, sel_position = i + 1\<rparr>"
    let ?row = "\<lparr>pt_playlist_id = pid, pt_track_id = track_id tr, position = i + 1,
                  weight = js_or wt (JNum 0.5)\<rparr>"
    have c1: "count_in x (tracks w1) =
        (if x = track_id tr then map_option (\<lambda>c. selection_count tr + 1) (count_in x (tracks w))
         else count_in x (tracks w))" for x
      by (simp add: w1 count_in_update)
    have cs: "count_in (track_id tr) snapshot = Some (selection_count tr)"
      using count_in_found [OF tr] .
    have "out' = out @ (?s # new)" using ih(1) o1 by simp
    moreover have "playlist_tracks w' = playlist_tracks w @ (?row # rows)"
      using ih(2) w1 by simp
    moreover have "map pt_track_id (?row # rows) = map (\<lambda>s. track_id (sel_track s)) (?s # new)"
      using ih(3) by simp
    moreover have "count_in x (tracks w') =
          (if x \<in> set (map (\<lambda>s. track_id (sel_track s)) (?s # new))
           then (case count_in x (tracks w) of
                   None \<Rightarrow> None
                 | Some c \<Rightarrow> map_option (\<lambda>c. c + 1) (count_in x snapshot))
           else count_in x (tracks w))" for x
      using ih(4) [of x] c1 [of x] cs
      by (cases "count_in x (tracks w)") (auto split: option.splits)
    ultimately show ?thesis by blast
  qed
qed


lemma insert_tracks_none_resolve:
  "list_all (\<lambda>sel. sel \<noteq> JNull \<and> \<not> resolves snapshot sel) sels \<Longrightarrow>
     insert_tracks e snapshot pid i sels out w = (Inr out, w)"
  by (induction sels arbitrary: i) (simp_all add: loop_body_unresolved)

lemma not_thrown: "\<not> isl (fst p) \<Longrightarrow> \<exists>r w. p = (Inr r, w)"
  by (cases p, cases "fst p") auto

lemma loop_body_no_throw:
  "sel \<noteq> JNull \<Longrightarrow> \<not> isl (fst (loop_body e snapshot pid i sel acc w))"
  by (cases sel) (simp_all add: loop_body_def Let_def split: option.splits)

lemma insert_tracks_no_throw:
  "list_all (\<lambda>sel. sel \<noteq> JNull) sels \<Longrightarrow>
     \<not> isl (fst (insert_tracks e snapshot pid i sels acc w))"
proof (induction sels arbitrary: i acc w)
  case Nil
  then show ?case by simp
next
  case (Cons sel rest)
  then have "\<not> isl (fst (loop_body e snapshot pid i sel acc w))"
    by (simp add: loop_body_no_throw)
  then obtain acc1 w1 where "loop_body e snapshot pid i sel acc w = (Inr acc1, w1)"
    using not_thrown by blast
  with Cons show ?case by simp
qed

lemma map_filter_enumerate:
  "map (\<lambda>(k, x). f x) (filter (\<lambda>(k, x). P x) (enumerate i xs)) = map f (filter P xs)"
  by (induction xs arbitrary: i) simp_all

lemma enumerate_index_bounds:
  "(k, x) \<in> set (enumerate i xs) \<Longrightarrow> i \<le> k \<and> k < i + length xs"
  by (auto simp: enumerate_eq_zip dest: set_zip_leftD)

lemma sorted_positions:
  "sorted_wrt (<) (map (\<lambda>(k, x). k + 1) (filter (\<lambda>(k, x). P x) (enumerate i xs)))"
proof (induction xs arbitrary: i)
  case Nil
  then show ?case by simp
next
  case (Cons x xs)
  have "i < k" if "(k, y) \<in> set (enumerate (Suc i) xs)" for k y
    using enumerate_index_bounds [OF that] by simp
  with Cons [of "Suc i"] show ?case by auto
qed

lemma positions_all_resolve:
  assumes "list_all P xs"
  shows "map (\<lambda>(k, x). k + 1) (filter (\<lambda>(k, x). P x) (enumerate i xs))
    = [Suc i..<Suc (i + length xs)]"
proof -
  from assms have "filter (\<lambda>(k, x). P x) (enumerate i xs) = enumerate i xs"
    by (induction xs arbitrary: i) simp_all
  moreover have "map (\<lambda>(k, x). k + 1) (enumerate j xs) = [Suc j..<Suc (j + length xs)]" for j
    by (induction xs arbitrary: j) (simp_all add: upt_conv_Cons del: upt_Suc)
  ultimately show ?thesis by simp
qed

section \<open>The generation route as a whole\<close>

lemma validate_cases:
  "validate p text =
     (case p (clean_response text) of
        None \<Rightarrow> Inl SyntaxError
      | Some JNull \<Rightarrow> Inl TypeError
      | Some g \<Rightarrow> (case field_of g ''tracks'' of Some (JArr sels) \<Rightarrow> Inr sels | _ \<Rightarrow> Inl InvalidFormat))"
  by (auto simp: validate_def field_of_def split: option.splits json.splits sum.splits)

lemma generate_200:
  assumes "fst (fst (generate e mood w)) = 200"
  shows "\<exists>m text sels out w3. check_mood mood = Inr (Some m) \<and> tracks w \<noteq> []
     \<and> reply e = Inr text \<and> validate (parse e) text = Inr sels
     \<and> insert_tracks e (tracks w) (new_id e) 0 sels []
          (w\<lparr>llm_calls := llm_calls w + 1,
             playlists := playlists w @
               [\<lparr>playlist_id = new_id e, mood_prompt = m, created_at = now e\<rparr>]\<rparr>) = (Inr out, w3)
     \<and> redis_up w3
     \<and> generate e mood w =
         ((200, Generated (new_id e) m (now e) out), w3\<lparr>top_tracks_key := None\<rparr>)"
  using assms
  by (auto simp: generate_def generate_try_def redis_del_def Let_def
      split: sum.splits option.splits prod.splits if_splits)

lemma generate_run:
  assumes "check_mood mood = Inr (Some m)" and "tracks w \<noteq> []" and "reply e = Inr text"
    and "validate (parse e) text = Inr sels"
    and "insert_tracks e (tracks w) (new_id e) 0 sels []
          (w\<lparr>llm_calls := llm_calls w + 1,
             playlists := playlists w @
               [\<lparr>playlist_id = new_id e, mood_prompt = m, created_at = now e\<rparr>]\<rparr>) = (Inr out, w3)"
  shows "generate e mood w =
     (if redis_up w3
      then ((200, Generated (new_id e) m (now e) out), w3\<lparr>top_tracks_key := None\<rparr>)
      else ((500, ErrorDetails ''Failed to generate playlist'' CacheError), w3))"
  using assms
  by (simp add: generate_def generate_try_def redis_del_def Let_def)


lemma generate_rows:
  assumes "generate e mood w = ((200, Generated pid m c out), w')"
    and "reply e = Inr text" and "validate (parse e) text = Inr sels"
    and "\<forall>r. accepts e r"
  shows "\<exists>rows. playlist_tracks w' = playlist_tracks w @ rows
     \<and> map position rows =
         map (\<lambda>(k, sel). k + 1) (filter (\<lambda>(k, sel). resolves (tracks w) sel) (enumerate 0 sels))
     \<and> map weight rows =
         map (\<lambda>(k, sel). js_or (field_of sel ''weight'') (JNum 0.5))
           (filter (\<lambda>(k, sel). resolves (tracks w) sel) (enumerate 0 sels))
     \<and> map (\<lambda>r. Some (JStr (pt_track_id r))) rows =
         map (\<lambda>(k, sel). field_of sel ''id'')
           (filter (\<lambda>(k, sel). resolves (tracks w) sel) (enumerate 0 sels))
     \<and> map pt_playlist_id rows =
         map (\<lambda>(k, sel). new_id e) (filter (\<lambda>(k, sel). resolves (tracks w) sel) (enumerate 0 sels))"
proof -
  from assms(1) have "fst (fst (generate e mood w)) = 200" by simp
  from generate_200 [OF this] assms(1-3)
  obtain m' w3 where
    ins: "insert_tracks e (tracks w) (new_id e) 0 sels []
          (w\<lparr>llm_calls := llm_calls w + 1,
             playlists := playlists w @
               [\<lparr>playlist_id = new_id e, mood_prompt = m', created_at = now e\<rparr>]\<rparr>) = (Inr out, w3)"
    and w': "w' = w3\<lparr>top_tracks_key := None\<rparr>"
    by auto
  from insert_tracks_rows [OF assms(4) ins] w' show ?thesis by simp
qed

lemma generate_200_cache:
  assumes "fst (fst (generate e mood w)) = 200"
  shows "redis_up (snd (generate e mood w)) \<and> top_tracks_key (snd (generate e mood w)) = None"
proof -
  from generate_200 [OF assms] obtain m out w3 where
    "redis_up w3" "generate e mood w = ((200, Generated (new_id e) m (now e) out), w3\<lparr>top_tracks_key := None\<rparr>)"
    by blast
  then show ?thesis by simp
qed

lemma delete_track_200_cache:
  assumes "fst (fst (delete_track tid w)) = 200"
  shows "redis_up (snd (delete_track tid w)) \<and> top_tracks_key (snd (delete_track tid w)) = None"
  using assms
  by (auto simp: delete_track_def redis_del_def Let_def split: sum.splits if_splits)

lemma generate_unfold:
  assumes "check_mood mood = Inr (Some m)" and "tracks w \<noteq> []" and "reply e = Inr text"
    and "validate (parse e) text = Inr sels" and "redis_up w"
  shows "generate e mood w =
     (case insert_tracks e (tracks w) (new_id e) 0 sels []
             (w\<lparr>llm_calls := llm_calls w + 1,
                playlists := playlists w @
                  [\<lparr>playlist_id = new_id e, mood_prompt = m, created_at = now e\<rparr>]\<rparr>) of
        (Inl x, w3) \<Rightarrow> ((500, ErrorDetails ''Failed to generate playlist'' x), w3)
      | (Inr out, w3) \<Rightarrow>
          ((200, Generated (new_id e) m (now e) out), w3\<lparr>top_tracks_key := None\<rparr>))"
proof -
  have up: "redis_up w3" if "insert_tracks e (tracks w) (new_id e) 0 sels []
             (w\<lparr>llm_calls := llm_calls w + 1,
                playlists := playlists w @
                  [\<lparr>playlist_id = new_id e, mood_prompt = m, created_at = now e\<rparr>]\<rparr>)
          = (r, w3)" for r w3
    using insert_tracks_frame [OF that] assms(5) by simp
  show ?thesis
    using assms(1-4)
    by (auto simp: generate_def generate_try_def redis_del_def Let_def up
        split: prod.splits sum.splits)
qed

lemma generate_counts:
  assumes "generate e mood w = ((200, Generated pid m c out), w')"
  shows "(\<exists>rows. playlist_tracks w' = playlist_tracks w @ rows
        \<and> map pt_track_id rows = map (\<lambda>s. track_id (sel_track s)) out)
     \<and> count_in x (tracks w') =
         (if x \<in> set (map (\<lambda>s. track_id (sel_track s)) out)
          then map_option (\<lambda>c. c + 1) (count_in x (tracks w))
          else count_in x (tracks w))"
proof -
  from assms have "fst (fst (generate e mood w)) = 200" by simp
  from generate_200 [OF this] assms
  obtain m' sels w3 where
    ins: "insert_tracks e (tracks w) (new_id e) 0 sels []
          (w\<lparr>llm_calls := llm_calls w + 1,
             playlists := playlists w @
               [\<lparr>playlist_id = new_id e, mood_prompt = m', created_at = now e\<rparr>]\<rparr>) = (Inr out, w3)"
    and w': "w' = w3\<lparr>top_tracks_key := None\<rparr>"
    by auto
  from insert_tracks_counts [OF ins] obtain new rows where
    n: "out = [] @ new" and r: "playlist_tracks w3 = playlist_tracks w @ rows"
    and ids: "map pt_track_id rows = map (\<lambda>s. track_id (sel_track s)) new"
    and cnt: "\<And>x. count_in x (tracks w3) =
          (if x \<in> set (map (\<lambda>s. track_id (sel_track s)) new)
           then (case count_in x (tracks w) of
                   None \<Rightarrow> None
                 | Some c \<Rightarrow> map_option (\<lambda>c. c + 1) (count_in x (tracks w)))
           else count_in x (tracks w))"
    by auto
  have "count_in x (tracks w') =
         (if x \<in> set (map (\<lambda>s. track_id (sel_track s)) out)
          then map_option (\<lambda>c. c + 1) (count_in x (tracks w))
          else count_in x (tracks w))"
    using cnt [of x] n w' by (cases "count_in x (tracks w)") auto
  moreover have "playlist_tracks w' = playlist_tracks w @ rows" using r w' by simp
  moreover have "map pt_track_id rows = map (\<lambda>s. track_id (sel_track s)) out" using ids n by simp
  ultimately show ?thesis by blast
qed

lemma generate_all_counts:
  "generate_all reqs w = (rs, w') \<Longrightarrow> list_all (selects x) rs \<Longrightarrow>
     count_in x (tracks w') = map_option (\<lambda>c. c + int (length reqs)) (count_in x (tracks w))"
proof (induction reqs arbitrary: w rs w')
  case Nil
  then show ?case by (simp add: option.map_ident)
next
  case (Cons req reqs)
  obtain e mood where req: "req = (e, mood)" by (cases req)
  obtain r w1 where g: "generate e mood w = (r, w1)" by (cases "generate e mood w")
  obtain rs1 w2 where ga: "generate_all reqs w1 = (rs1, w2)" by (cases "generate_all reqs w1")
  from Cons.prems(1) req g ga have rs: "rs = r # rs1" and w': "w' = w2" by simp_all
  with Cons.prems(2) have sr: "selects x r" and srs: "list_all (selects x) rs1" by simp_all
  from sr obtain pid m c out where r: "r = (200, Generated pid m c out)"
    and xin: "x \<in> set (map (\<lambda>s. track_id (sel_track s)) out)"
    by (cases "(x, r)" rule: selects.cases) auto
  from generate_counts [OF g [unfolded r], of x] xin
  have 1: "count_in x (tracks w1) = map_option (\<lambda>c. c + 1) (count_in x (tracks w))" by simp
  from Cons.IH [OF ga srs]
  have "count_in x (tracks w2) = map_option (\<lambda>c. c + int (length reqs)) (count_in x (tracks w1))" .
  with 1 w' show ?case
    by (cases "count_in x (tracks w)") simp_all
qed

section \<open>The top-tracks route\<close>

lemma top_tracks_down:
  "\<not> redis_up w \<Longrightarrow> top_tracks t q w = ((500, Error ''Failed to fetch top tracks''), w)"
  by (simp add: top_tracks_def top_tracks_try_def redis_get_def)

lemma top_tracks_hit:
  "redis_up w \<Longrightarrow> top_tracks_key w = Some (cached, expiry) \<Longrightarrow> t < expiry \<Longrightarrow>
     top_tracks t q w = ((200, Tracks cached), w)"
  by (simp add: top_tracks_def top_tracks_try_def redis_get_def)

lemma top_tracks_miss:
  "redis_get t w = Inr None \<Longrightarrow> 0 \<le> limit_of q \<Longrightarrow>
     top_tracks t q w =
       ((200, Tracks (take (nat (limit_of q)) (ranked (tracks w)))),
        w\<lparr>top_tracks_key := Some (take (nat (limit_of q)) (ranked (tracks w)), t + 300)\<rparr>)"
  by (auto simp: top_tracks_def top_tracks_try_def redis_get_def redis_setex_def top_query_def
      Let_def split: if_splits)

lemma redis_get_cleared:
  "redis_up w \<Longrightarrow> top_tracks_key w = None \<Longrightarrow> redis_get t w = Inr None"
  by (simp add: redis_get_def)

lemma set_ranked: "set (ranked ts) = {x \<in> set ts. 0 < selection_count x}"
  by (auto simp: ranked_def)

lemma ranked_descending:
  "sorted_wrt (\<lambda>a b. selection_count b \<le> selection_count a) (ranked ts)"
proof -
  have "sorted (map (\<lambda>t. - selection_count t) (ranked ts))"
    by (simp add: ranked_def)
  then show ?thesis
    by (simp add: sorted_wrt_map)
qed

lemma limit_of_None: "limit_of None = 10"
  by (simp add: limit_of_def parseInt_def)

section \<open>Evaluation on the sample data\<close>

lemma clean_sample: "clean_response sample_reply = ''R''"
  by (simp add: clean_response_def sample_reply_def trim_defs skip_newline_def newline_def)

lemma validate_sample: "validate (parse (env_of sels)) sample_reply = Inr sels"
  by (simp add: validate_def env_of_def clean_sample)

lemma env_of_simps:
  "reply (env_of sels) = Inr sample_reply" "accepts (env_of sels) r"
  "new_id (env_of sels) = ''P1''" "now (env_of sels) = 7"
  by (simp_all add: env_of_def)

lemma trim_calm: "trim ''calm'' = ''calm''"
  by (simp add: trim_defs)

lemma check_mood_calm: "check_mood (Some (JStr ''calm'')) = Inr (Some ''calm'')"
  by (simp add: trim_calm)

lemma tracks_world0: "tracks world0 \<noteq> []"
  by (simp add: world0_def)

lemmas sample_defs = loop_body_def pick_def track_A_def track_B_def env_of_simps
  update_selection_count_def world0_def

text \<open>
  The route on the sample world, up to the loop: the mood \<open>calm\<close> passes, the catalog
  is not empty, the answer of the backend validates to \<open>sels\<close>.
\<close>

lemma generate_sample:
  "generate (env_of sels) (Some (JStr ''calm'')) world0 =
     (case insert_tracks (env_of sels) [track_A, track_B] ''P1'' 0 sels []
             (world0\<lparr>llm_calls := 1,
                playlists := [\<lparr>playlist_id = ''P1'', mood_prompt = ''calm'', created_at = 7\<rparr>]\<rparr>) of
        (Inl x, w3) \<Rightarrow> ((500, ErrorDetails ''Failed to generate playlist'' x), w3)
      | (Inr out, w3) \<Rightarrow>
          ((200, Generated ''P1'' ''calm'' 7 out), w3\<lparr>top_tracks_key := None\<rparr>))"
proof -
  have up: "redis_up w3" if "insert_tracks (env_of sels) [track_A, track_B] ''P1'' 0 sels []
             (world0\<lparr>llm_calls := 1,
                playlists := [\<lparr>playlist_id = ''P1'', mood_prompt = ''calm'', created_at = 7\<rparr>]\<rparr>)
          = (r, w3)" for r w3
    using insert_tracks_frame [OF that] by (simp add: world0_def)
  show ?thesis
    by (auto simp: generate_def generate_try_def trim_calm env_of_simps validate_sample
        redis_del_def Let_def world0_def up split: prod.splits sum.splits)
qed

lemma generate_sample_200:
  assumes "list_all (\<lambda>sel. sel \<noteq> JNull) sels"
  shows "\<exists>out w'. generate (env_of sels) (Some (JStr ''calm'')) world0
     = ((200, Generated ''P1'' ''calm'' 7 out), w')"
proof -
  let ?r = "insert_tracks (env_of sels) [track_A, track_B] ''P1'' 0 sels []
             (world0\<lparr>llm_calls := 1,
                playlists := [\<lparr>playlist_id = ''P1'', mood_prompt = ''calm'', created_at = 7\<rparr>]\<rparr>)"
  from insert_tracks_no_throw [OF assms] have "\<not> isl (fst ?r)" .
  then obtain out w3 where "?r = (Inr out, w3)"
    using not_thrown by blast
  then show ?thesis unfolding generate_sample by simp
qed

lemmas resolve_defs = resolves_def field_of_def pick_def world0_def track_A_def track_B_def

lemma later_env_of_simps:
  "reply (later_env_of sels) = Inr sample_reply" "accepts (later_env_of sels) r"
  "new_id (later_env_of sels) = ''P2''" "now (later_env_of sels) = 9"
  "validate (parse (later_env_of sels)) sample_reply = Inr sels"
  using validate_sample [of sels]
  by (simp_all add: later_env_of_def env_of_simps)

lemmas generate_first = generate_unfold [OF check_mood_calm _ env_of_simps(1) validate_sample]

lemmas generate_later =
  generate_unfold [OF check_mood_calm _ later_env_of_simps(1) later_env_of_simps(5)]

lemma typed_env_of_simps:
  "reply (typed_env_of sels) = Inr sample_reply"
  "accepts (typed_env_of sels) r = (case weight r of JNum x \<Rightarrow> True | _ \<Rightarrow> False)"
  "new_id (typed_env_of sels) = ''P1''" "now (typed_env_of sels) = 7"
  "validate (parse (typed_env_of sels)) sample_reply = Inr sels"
  using validate_sample [of sels]
  by (simp_all add: typed_env_of_def env_of_simps)

lemmas parse_defs = limit_of_def parseInt_def digit_of_def match_len_def white_space_def Let_def

lemma parse_samples:
  "parseInt (Some ''1'') = Some 1" "parseInt (Some ''abc'') = None" "parseInt (Some ''0'') = Some 0"
  "parseInt (Some '' -0x1F'') = Some (- 31)" "parseInt (Some ''25 tracks'') = Some 25"
  by (simp_all add: parse_defs)

section \<open>Refusals before any effect\<close>

text \<open>
  C5. A mood string that is empty or holds white space only (any of the characters
  that \<open>trim\<close> removes, those beyond ASCII included) is refused with status 400, and
  so is every request made while the catalog is empty, whether its mood is a string or
  is missing. The world after the request is the world before it: no call to the
  generative backend was counted, no table and no file changed, and the cache entry
  is the same.
\<close>

theorem generate_refused_before_any_effect:
  "(trim s = [] \<longrightarrow>
      generate e (Some (JStr s)) w = ((400, Error ''Mood prompt is required''), w))
   \<and> (set ps \<subseteq> set white_space \<longrightarrow>
      generate e (Some (JStr (concat ps))) w = ((400, Error ''Mood prompt is required''), w))
   \<and> (tracks w = [] \<longrightarrow>
      fst (fst (generate e (Some (JStr s)) w)) = 400 \<and> snd (generate e (Some (JStr s)) w) = w
      \<and> generate e None w = ((400, Error ''Mood prompt is required''), w))"
proof (intro conjI impI)
  assume "trim s = []"
  then have "check_mood (Some (JStr s)) = Inr None" by simp
  then show "generate e (Some (JStr s)) w = ((400, Error ''Mood prompt is required''), w)"
    by (simp add: generate_def generate_try_def)
next
  assume "set ps \<subseteq> set white_space"
  then have "trim (concat ps) = []" by (rule trim_white_space_only)
  then have "check_mood (Some (JStr (concat ps))) = Inr None" by simp
  then show "generate e (Some (JStr (concat ps))) w
      = ((400, Error ''Mood prompt is required''), w)"
    by (simp add: generate_def generate_try_def)
next
  assume empty: "tracks w = []"
  show "fst (fst (generate e (Some (JStr s)) w)) = 400"
  proof (cases "check_mood (Some (JStr s))")
    case (Inl x)
    then show ?thesis by (simp split: if_splits)
  next
    case (Inr r)
    with empty show ?thesis
      by (cases r) (simp_all add: generate_def generate_try_def)
  qed
  show "snd (generate e (Some (JStr s)) w) = w"
    using empty by (simp add: generate_def generate_try_def)
  show "generate e None w = ((400, Error ''Mood prompt is required''), w)"
    by (simp add: generate_def generate_try_def)
qed

text \<open>
  The mood of the first two parts is a no-break space (U+00A0), a space, a line
  separator (U+2028), a newline, a byte order mark (U+FEFF) and an ideographic space
  (U+3000).
\<close>

theorem generate_refused_before_any_effect_witness:
  "trim [CHR 0xC2, CHR 0xA0, CHR 0x20, CHR 0xE2, CHR 0x80, CHR 0xA8, CHR 0x0A,
         CHR 0xEF, CHR 0xBB, CHR 0xBF, CHR 0xE3, CHR 0x80, CHR 0x80] = [] \<and>
   generate (env_of [])
     (Some (JStr [CHR 0xC2, CHR 0xA0, CHR 0x20, CHR 0xE2, CHR 0x80, CHR 0xA8, CHR 0x0A,
                  CHR 0xEF, CHR 0xBB, CHR 0xBF, CHR 0xE3, CHR 0x80, CHR 0x80])) world0
     = ((400, Error ''Mood prompt is required''), world0) \<and>
   set [[CHR 0xC2, CHR 0xA0], [CHR 0x20], [CHR 0xE2, CHR 0x80, CHR 0xA8], [CHR 0x0A],
        [CHR 0xEF, CHR 0xBB, CHR 0xBF], [CHR 0xE3, CHR 0x80, CHR 0x80]] \<subseteq> set white_space \<and>
   generate (env_of [])
     (Some (JStr (concat [[CHR 0xC2, CHR 0xA0], [CHR 0x20], [CHR 0xE2, CHR 0x80, CHR 0xA8],
        [CHR 0x0A], [CHR 0xEF, CHR 0xBB, CHR 0xBF], [CHR 0xE3, CHR 0x80, CHR 0x80]]))) world0
     = ((400, Error ''Mood prompt is required''), world0) \<and>
   tracks empty_world = [] \<and>
   fst (generate (env_of []) (Some (JStr ''calm'')) empty_world)
     = (400, Error ''No tracks available. Please upload some music first.'') \<and>
   snd (generate (env_of []) (Some (JStr ''calm'')) empty_world) = empty_world"
proof -
  let ?blank = "[CHR 0xC2, CHR 0xA0, CHR 0x20, CHR 0xE2, CHR 0x80, CHR 0xA8, CHR 0x0A,
         CHR 0xEF, CHR 0xBB, CHR 0xBF, CHR 0xE3, CHR 0x80, CHR 0x80]"
  let ?ps = "[[CHR 0xC2, CHR 0xA0], [CHR 0x20], [CHR 0xE2, CHR 0x80, CHR 0xA8], [CHR 0x0A],
        [CHR 0xEF, CHR 0xBB, CHR 0xBF], [CHR 0xE3, CHR 0x80, CHR 0x80]]"
  have blank: "trim ?blank = []"
    by (simp add: trim_defs)
  have sub: "set ?ps \<subseteq> set white_space"
    by (simp add: white_space_def)
  have empty: "tracks empty_world = []"
    by (simp add: empty_world_def)
  have body: "snd (fst (generate (env_of []) (Some (JStr ''calm'')) empty_world))
      = Error ''No tracks available. Please upload some music first.''"
    by (simp add: generate_def generate_try_def trim_calm empty_world_def)
  from generate_refused_before_any_effect [of ?blank "env_of []" world0] blank
  have 1: "generate (env_of []) (Some (JStr ?blank)) world0
     = ((400, Error ''Mood prompt is required''), world0)"
    by blast
  from generate_refused_before_any_effect [of _ "env_of []" world0 ?ps] sub
  have 4: "generate (env_of []) (Some (JStr (concat ?ps))) world0
     = ((400, Error ''Mood prompt is required''), world0)"
    by blast
  from generate_refused_before_any_effect [of "''calm''" "env_of []" empty_world] empty
  have 2: "fst (fst (generate (env_of []) (Some (JStr ''calm'')) empty_world)) = 400"
    and 3: "snd (generate (env_of []) (Some (JStr ''calm'')) empty_world) = empty_world"
    by blast+
  from 2 body have "fst (generate (env_of []) (Some (JStr ''calm'')) empty_world)
     = (400, Error ''No tracks available. Please upload some music first.'')"
    by (simp add: prod_eq_iff)
  with blank 1 sub 4 empty 3 show ?thesis by blast
qed

section \<open>Selections that name no track of the catalog\<close>

text \<open>
  C1, as the code has it. When no record of the validated selection list resolves in
  the catalog (and none is \<open>null\<close>, on which the loop throws), the request does not
  fail: the playlist row was inserted before the
  loop (line 211), so one Playlist with the mood is persisted, no entry is created and
  no usage counter changes. With Redis up the answer is 200 with an empty track list
  and the cache entry is cleared; with Redis down the answer is 500 and the playlist
  row stays.
\<close>

theorem no_survivor_still_persists_playlist:
  assumes "check_mood mood = Inr (Some m)" and "tracks w \<noteq> []" and "reply e = Inr text"
    and "validate (parse e) text = Inr sels"
    and "list_all (\<lambda>sel. sel \<noteq> JNull \<and> \<not> resolves (tracks w) sel) sels"
  shows "generate e mood w =
     (if redis_up w
      then ((200, Generated (new_id e) m (now e) []),
            w\<lparr>llm_calls := llm_calls w + 1,
              playlists := playlists w @
                [\<lparr>playlist_id = new_id e, mood_prompt = m, created_at = now e\<rparr>],
              top_tracks_key := None\<rparr>)
      else ((500, ErrorDetails ''Failed to generate playlist'' CacheError),
            w\<lparr>llm_calls := llm_calls w + 1,
              playlists := playlists w @
                [\<lparr>playlist_id = new_id e, mood_prompt = m, created_at = now e\<rparr>]\<rparr>))
     \<and> playlists (snd (generate e mood w)) =
         playlists w @ [\<lparr>playlist_id = new_id e, mood_prompt = m, created_at = now e\<rparr>]
     \<and> playlist_tracks (snd (generate e mood w)) = playlist_tracks w
     \<and> tracks (snd (generate e mood w)) = tracks w"
proof -
  let ?w2 = "w\<lparr>llm_calls := llm_calls w + 1,
              playlists := playlists w @
                [\<lparr>playlist_id = new_id e, mood_prompt = m, created_at = now e\<rparr>]\<rparr>"
  have "insert_tracks e (tracks w) (new_id e) 0 sels [] ?w2 = (Inr [], ?w2)"
    using assms(5) by (rule insert_tracks_none_resolve)
  from generate_run [OF assms(1-4) this] show ?thesis by simp
qed

theorem no_survivor_still_persists_playlist_witness:
  "generate (env_of [pick ''ghost'' (JNum 0.9), pick ''phantom'' (JNum 0.4)]) (Some (JStr ''calm'')) world0 =
     ((200, Generated ''P1'' ''calm'' 7 []),
      world0\<lparr>llm_calls := 1,
        playlists := [\<lparr>playlist_id = ''P1'', mood_prompt = ''calm'', created_at = 7\<rparr>],
        top_tracks_key := None\<rparr>)"
proof -
  have b: "list_all (\<lambda>sel. sel \<noteq> JNull \<and> \<not> resolves (tracks world0) sel)
      [pick ''ghost'' (JNum 0.9), pick ''phantom'' (JNum 0.4)]"
    by (simp add: resolves_def pick_def world0_def track_A_def track_B_def)
  from no_survivor_still_persists_playlist
    [OF check_mood_calm tracks_world0 env_of_simps(1) validate_sample b]
  show ?thesis by (simp add: world0_def env_of_simps)
qed

text \<open>
  C1 as stated fails: when the only selection record names an id that is not in the
  catalog, the answer is 200 and a Playlist row exists afterwards.
\<close>

theorem empty_playlist_is_persisted:
  "fst (generate (env_of [pick ''ghost'' (JNum 0.9)]) (Some (JStr ''calm'')) world0)
     = (200, Generated ''P1'' ''calm'' 7 [])
   \<and> playlists (snd (generate (env_of [pick ''ghost'' (JNum 0.9)]) (Some (JStr ''calm'')) world0))
     = [\<lparr>playlist_id = ''P1'', mood_prompt = ''calm'', created_at = 7\<rparr>]"
  unfolding generate_sample by (simp add: sample_defs)


section \<open>Positions and weights of the persisted entries\<close>

text \<open>
  C2, as the code has it. With a store that takes every row, the records whose id
  resolves in the catalog are persisted in their original relative order, and each has
  as position its 1-based index in the original selection list (\<open>position: i + 1\<close>
  at line 235, where \<open>i\<close> also counts the dropped records). The positions are strictly
  increasing; they are \<open>1..K\<close> when every record resolves.
\<close>

theorem positions_are_original_indices:
  assumes "generate e mood w = ((200, Generated pid m c out), w')"
    and "reply e = Inr text" and "validate (parse e) text = Inr sels"
    and "\<forall>r. accepts e r"
  shows "\<exists>rows. playlist_tracks w' = playlist_tracks w @ rows
     \<and> length rows = length (filter (resolves (tracks w)) sels)
     \<and> map position rows =
         map (\<lambda>(k, sel). k + 1) (filter (\<lambda>(k, sel). resolves (tracks w) sel) (enumerate 0 sels))
     \<and> map (\<lambda>r. Some (JStr (pt_track_id r))) rows =
         map (\<lambda>sel. field_of sel ''id'') (filter (resolves (tracks w)) sels)
     \<and> sorted_wrt (<) (map position rows)
     \<and> (list_all (resolves (tracks w)) sels \<longrightarrow> map position rows = [1..<Suc (length sels)])"
proof -
  from generate_rows [OF assms] obtain rows where
    rows: "playlist_tracks w' = playlist_tracks w @ rows"
    and pos: "map position rows =
         map (\<lambda>(k, sel). k + 1) (filter (\<lambda>(k, sel). resolves (tracks w) sel) (enumerate 0 sels))"
    and ids: "map (\<lambda>r. Some (JStr (pt_track_id r))) rows =
         map (\<lambda>(k, sel). field_of sel ''id'')
           (filter (\<lambda>(k, sel). resolves (tracks w) sel) (enumerate 0 sels))"
    by blast
  have "length rows = length (map position rows)" by simp
  also have "\<dots> = length (map (\<lambda>(k, sel). sel) (filter (\<lambda>(k, sel). resolves (tracks w) sel) (enumerate 0 sels)))"
    unfolding pos by simp
  also have "\<dots> = length (filter (resolves (tracks w)) sels)"
    unfolding map_filter_enumerate by simp
  finally have len: "length rows = length (filter (resolves (tracks w)) sels)" .
  have ids': "map (\<lambda>r. Some (JStr (pt_track_id r))) rows =
         map (\<lambda>sel. field_of sel ''id'') (filter (resolves (tracks w)) sels)"
    using ids unfolding map_filter_enumerate .
  have srt: "sorted_wrt (<) (map position rows)"
    unfolding pos by (rule sorted_positions)
  have all: "map position rows = [1..<Suc (length sels)]" if "list_all (resolves (tracks w)) sels"
    unfolding pos using positions_all_resolve [OF that, of 0] by (simp del: upt_Suc)
  from rows len pos ids' srt all show ?thesis by blast
qed


theorem positions_are_original_indices_witness:
  "\<exists>rows. playlist_tracks (snd (generate
        (env_of [pick ''ghost'' (JNum 0.9), pick ''B'' (JNum 0.8), pick ''A'' (JNum 0.7)])
        (Some (JStr ''calm'')) world0)) = playlist_tracks world0 @ rows
     \<and> length rows = 2 \<and> map position rows = [2, 3]
     \<and> map (\<lambda>r. Some (JStr (pt_track_id r))) rows = [Some (JStr ''B''), Some (JStr ''A'')]
     \<and> sorted_wrt (<) (map position rows)"
proof -
  let ?sels = "[pick ''ghost'' (JNum 0.9), pick ''B'' (JNum 0.8), pick ''A'' (JNum 0.7)]"
  have "list_all (\<lambda>sel. sel \<noteq> JNull) ?sels" by (simp add: pick_def)
  from generate_sample_200 [OF this] obtain out w' where
    g: "generate (env_of ?sels) (Some (JStr ''calm'')) world0
      = ((200, Generated ''P1'' ''calm'' 7 out), w')"
    by blast
  have acc: "\<forall>r. accepts (env_of ?sels) r" by (simp add: env_of_simps)
  from positions_are_original_indices [OF g env_of_simps(1) validate_sample acc]
  show ?thesis unfolding g by (simp add: resolve_defs)
qed


text \<open>
  C2 as stated fails: with two known and three unknown identifiers the two entries
  have the positions 2 and 5, not 1 and 2.
\<close>

theorem positions_have_gaps:
  "map position (playlist_tracks (snd (generate
      (env_of [pick ''ghost'' (JNum 0.9), pick ''A'' (JNum 0.8), pick ''phantom'' (JNum 0.7),
               pick ''spectre'' (JNum 0.6), pick ''B'' (JNum 0.5)])
      (Some (JStr ''calm'')) world0))) = [2, 5]"
  unfolding generate_sample by (simp add: sample_defs)


text \<open>
  C3. The weight sent to the store is \<open>selectedTrack.weight || 0.5\<close> (line 236), and
  the number 0 is falsy. When the backend selects one known track with weight 0 and
  the store takes the row, the persisted entry has weight 0.5, not the record's weight
  0, while the answer of the route echoes the weight 0 (line 255).
\<close>

theorem zero_weight_is_stored_as_half:
  assumes "check_mood mood = Inr (Some m)" and "reply e = Inr text"
    and "validate (parse e) text = Inr [sel]" and "redis_up w"
    and "find (\<lambda>t. Some (JStr (track_id t)) = field_of sel ''id'') (tracks w) = Some tr"
    and "field_of sel ''weight'' = Some (JNum 0)"
    and "accepts e \<lparr>pt_playlist_id = new_id e, pt_track_id = track_id tr, position = 1,
                     weight = JNum 0.5\<rparr>"
  shows "fst (generate e mood w) =
       (200, Generated (new_id e) m (now e)
               [\<lparr>sel_track = tr, sel_weight = Some (JNum 0),
                 sel_reason = field_of sel ''reason'', sel_position = 1\<rparr>])
     \<and> playlist_tracks (snd (generate e mood w)) =
         playlist_tracks w @
           [\<lparr>pt_playlist_id = new_id e, pt_track_id = track_id tr, position = 1,
             weight = JNum 0.5\<rparr>]"
proof -
  let ?w2 = "w\<lparr>llm_calls := llm_calls w + 1,
              playlists := playlists w @
                [\<lparr>playlist_id = new_id e, mood_prompt = m, created_at = now e\<rparr>]\<rparr>"
  from assms(6) have nn: "sel \<noteq> JNull" by (auto simp: field_of_def)
  then have "get_field sel ''id'' = Inr (field_of sel ''id'')"
    by (cases sel) (simp_all add: field_of_def)
  with assms(5) have res: "resolves (tracks w) sel" by (simp add: resolves_def)
  from assms(5) have ne: "tracks w \<noteq> []" by auto
  have acc: "accepts e
     \<lparr>pt_playlist_id = new_id e,
       pt_track_id = track_id (the (find (\<lambda>t. Some (JStr (track_id t)) = field_of sel ''id'') (tracks w))),
       position = 0 + 1, weight = js_or (field_of sel ''weight'') (JNum 0.5)\<rparr>"
    using assms(5-7) by simp
  from loop_body_resolved [OF res acc, of "[]" ?w2] assms(5,6)
  have "loop_body e (tracks w) (new_id e) 0 sel [] ?w2 =
       (Inr [\<lparr>sel_track = tr, sel_weight = Some (JNum 0),
                sel_reason = field_of sel ''reason'', sel_position = 1\<rparr>],
        update_selection_count (track_id tr) (selection_count tr + 1)
          (?w2\<lparr>playlist_tracks := playlist_tracks ?w2 @
              [\<lparr>pt_playlist_id = new_id e, pt_track_id = track_id tr, position = 1,
                weight = JNum 0.5\<rparr>]\<rparr>))"
    by simp
  then have "insert_tracks e (tracks w) (new_id e) 0 [sel] [] ?w2 =
       (Inr [\<lparr>sel_track = tr, sel_weight = Some (JNum 0),
                sel_reason = field_of sel ''reason'', sel_position = 1\<rparr>],
        update_selection_count (track_id tr) (selection_count tr + 1)
          (?w2\<lparr>playlist_tracks := playlist_tracks ?w2 @
              [\<lparr>pt_playlist_id = new_id e, pt_track_id = track_id tr, position = 1,
                weight = JNum 0.5\<rparr>]\<rparr>))"
    by simp
  with generate_unfold [OF assms(1) ne assms(2,3,4)] show ?thesis by simp
qed

theorem zero_weight_is_stored_as_half_witness:
  "fst (generate (typed_env_of [pick ''B'' (JNum 0)]) (Some (JStr ''calm'')) world0) =
       (200, Generated ''P1'' ''calm'' 7
               [\<lparr>sel_track = track_B, sel_weight = Some (JNum 0), sel_reason = None,
                 sel_position = 1\<rparr>])
   \<and> playlist_tracks (snd (generate (typed_env_of [pick ''B'' (JNum 0)]) (Some (JStr ''calm'')) world0)) =
         [\<lparr>pt_playlist_id = ''P1'', pt_track_id = ''B'', position = 1, weight = JNum 0.5\<rparr>]"
proof -
  let ?sel = "pick ''B'' (JNum 0)"
  have up: "redis_up world0" by (simp add: world0_def)
  have f: "find (\<lambda>t. Some (JStr (track_id t)) = field_of ?sel ''id'') (tracks world0) = Some track_B"
    by (simp add: resolve_defs)
  have wt: "field_of ?sel ''weight'' = Some (JNum 0)" by (simp add: field_of_def pick_def)
  have acc: "accepts (typed_env_of [?sel])
      \<lparr>pt_playlist_id = new_id (typed_env_of [?sel]), pt_track_id = track_id track_B,
        position = 1, weight = JNum 0.5\<rparr>"
    by (simp add: typed_env_of_simps)
  from zero_weight_is_stored_as_half
    [OF check_mood_calm typed_env_of_simps(1) typed_env_of_simps(5) up f wt acc]
  show ?thesis
    by (simp add: typed_env_of_simps field_of_def pick_def world0_def track_B_def)
qed


section \<open>Validation of the backend's answer\<close>

text \<open>
  C4, as the code has it. Validation (lines 200 to 208) fails exactly when the text,
  once the code fences are removed and it is trimmed, does not parse, or parses to
  \<open>null\<close>, or has no \<open>tracks\<close> field that is an array. An array passes whatever its
  length: for the empty array the route goes on, persists a playlist with no entry and
  answers 200.
\<close>

theorem validation_fails_iff_unparseable_or_no_array:
  "(isl (validate p text) \<longleftrightarrow>
      (p (clean_response text) = None \<or> p (clean_response text) = Some JNull
       \<or> (\<exists>g. p (clean_response text) = Some g \<and> \<not> isArray (field_of g ''tracks''))))
   \<and> (p (clean_response text) = Some g \<and> field_of g ''tracks'' = Some (JArr sels)
        \<longrightarrow> validate p text = Inr sels)
   \<and> (check_mood mood = Inr (Some m) \<and> tracks w \<noteq> [] \<and> redis_up w \<and> reply e = Inr text'
        \<and> parse e (clean_response text') = Some g' \<and> field_of g' ''tracks'' = Some (JArr [])
        \<longrightarrow> generate e mood w =
             ((200, Generated (new_id e) m (now e) []),
              w\<lparr>llm_calls := llm_calls w + 1,
                playlists := playlists w @
                  [\<lparr>playlist_id = new_id e, mood_prompt = m, created_at = now e\<rparr>],
                top_tracks_key := None\<rparr>))"
proof (intro conjI impI)
  show "isl (validate p text) \<longleftrightarrow>
      (p (clean_response text) = None \<or> p (clean_response text) = Some JNull
       \<or> (\<exists>g. p (clean_response text) = Some g \<and> \<not> isArray (field_of g ''tracks'')))"
    by (auto simp: validate_cases field_of_def split: option.splits json.splits)
next
  assume "p (clean_response text) = Some g \<and> field_of g ''tracks'' = Some (JArr sels)"
  then show "validate p text = Inr sels"
    by (cases g) (auto simp: validate_cases field_of_def)
next
  assume a: "check_mood mood = Inr (Some m) \<and> tracks w \<noteq> [] \<and> redis_up w \<and> reply e = Inr text'
        \<and> parse e (clean_response text') = Some g' \<and> field_of g' ''tracks'' = Some (JArr [])"
  then have v: "validate (parse e) text' = Inr []"
    by (cases g') (auto simp: validate_cases field_of_def)
  have "insert_tracks e (tracks w) (new_id e) 0 [] []
          (w\<lparr>llm_calls := llm_calls w + 1,
             playlists := playlists w @
               [\<lparr>playlist_id = new_id e, mood_prompt = m, created_at = now e\<rparr>]\<rparr>)
      = (Inr [], w\<lparr>llm_calls := llm_calls w + 1,
             playlists := playlists w @
               [\<lparr>playlist_id = new_id e, mood_prompt = m, created_at = now e\<rparr>]\<rparr>)"
    by simp
  from generate_run [OF _ _ _ v this] a
  show "generate e mood w =
             ((200, Generated (new_id e) m (now e) []),
              w\<lparr>llm_calls := llm_calls w + 1,
                playlists := playlists w @
                  [\<lparr>playlist_id = new_id e, mood_prompt = m, created_at = now e\<rparr>],
                top_tracks_key := None\<rparr>)"
    by simp
qed

theorem validation_fails_iff_unparseable_or_no_array_witness:
  "isl (validate (\<lambda>s. None) ''not json'')
   \<and> isl (validate (\<lambda>s. Some (JObj [(''tracks'', JStr ''A'')])) ''{}'')
   \<and> validate (parse (env_of [])) sample_reply = Inr []
   \<and> generate (env_of []) (Some (JStr ''calm'')) world0 =
       ((200, Generated ''P1'' ''calm'' 7 []),
        world0\<lparr>llm_calls := 1,
          playlists := [\<lparr>playlist_id = ''P1'', mood_prompt = ''calm'', created_at = 7\<rparr>],
          top_tracks_key := None\<rparr>)"
proof -
  let ?g = "JObj [(''tracks'', JArr [])]"
  have p: "parse (env_of []) (clean_response sample_reply) = Some ?g"
    by (simp add: clean_sample env_of_def)
  have f: "field_of ?g ''tracks'' = Some (JArr [])" by (simp add: field_of_def)
  have up: "redis_up world0" by (simp add: world0_def)
  note t = validation_fails_iff_unparseable_or_no_array
  from t [of "\<lambda>s. None" "''not json''"]
  have 1: "isl (validate (\<lambda>s. None) ''not json'')" by simp
  from t [of "\<lambda>s. Some (JObj [(''tracks'', JStr ''A'')])" "''{}''"]
  have 2: "isl (validate (\<lambda>s. Some (JObj [(''tracks'', JStr ''A'')])) ''{}'')"
    by (simp add: field_of_def)
  from t [of "parse (env_of [])" sample_reply ?g "[]"] p f
  have 3: "validate (parse (env_of [])) sample_reply = Inr []" by simp
  from t [of _ _ _ _ "Some (JStr ''calm'')" "''calm''" world0 "env_of []" sample_reply ?g]
    check_mood_calm tracks_world0 up env_of_simps(1) p f
  have 4: "generate (env_of []) (Some (JStr ''calm'')) world0 =
       ((200, Generated ''P1'' ''calm'' 7 []),
        world0\<lparr>llm_calls := 1,
          playlists := [\<lparr>playlist_id = ''P1'', mood_prompt = ''calm'', created_at = 7\<rparr>],
          top_tracks_key := None\<rparr>)"
    by (simp add: env_of_simps world0_def)
  from 1 2 3 4 show ?thesis by blast
qed

text \<open>
  C4 as stated fails: an answer whose \<open>tracks\<close> array is empty is not rejected, and a
  playlist is created.
\<close>

theorem empty_tracks_array_is_accepted:
  "validate (parse (env_of [])) sample_reply = Inr []
   \<and> fst (generate (env_of []) (Some (JStr ''calm'')) world0) = (200, Generated ''P1'' ''calm'' 7 [])
   \<and> playlists (snd (generate (env_of []) (Some (JStr ''calm'')) world0))
       = [\<lparr>playlist_id = ''P1'', mood_prompt = ''calm'', created_at = 7\<rparr>]"
  unfolding generate_sample by (simp add: validate_sample sample_defs)


section \<open>The cache of the top tracks\<close>

text \<open>
  C6. After a generation that answers 200 and after a deletion of a track that answers
  200, the Redis key \<open>top-tracks\<close> is gone, whatever its remaining time to live was.
  The next GET /api/stats/top-tracks, at any time \<open>t\<close> (so also before the old entry
  would have expired) and with a limit that is not negative, answers with the list
  recomputed from the tracks table as the request left it.
\<close>

theorem cache_cleared_after_generation_and_deletion:
  "(fst (fst (generate e mood w)) = 200 \<longrightarrow>
      top_tracks_key (snd (generate e mood w)) = None
      \<and> (0 \<le> limit_of q \<longrightarrow>
           fst (top_tracks t q (snd (generate e mood w))) =
             (200, Tracks (take (nat (limit_of q)) (ranked (tracks (snd (generate e mood w))))))))
   \<and> (fst (fst (delete_track tid w)) = 200 \<longrightarrow>
      top_tracks_key (snd (delete_track tid w)) = None
      \<and> (0 \<le> limit_of q \<longrightarrow>
           fst (top_tracks t q (snd (delete_track tid w))) =
             (200, Tracks (take (nat (limit_of q)) (ranked (tracks (snd (delete_track tid w))))))))"
proof (intro conjI impI)
  assume a: "fst (fst (generate e mood w)) = 200"
  from generate_200_cache [OF a]
  show "top_tracks_key (snd (generate e mood w)) = None" by simp
  assume l: "0 \<le> limit_of q"
  from generate_200_cache [OF a]
  have "redis_get t (snd (generate e mood w)) = Inr None" by (simp add: redis_get_cleared)
  from top_tracks_miss [OF this l]
  show "fst (top_tracks t q (snd (generate e mood w))) =
             (200, Tracks (take (nat (limit_of q)) (ranked (tracks (snd (generate e mood w))))))"
    by simp
next
  assume a: "fst (fst (delete_track tid w)) = 200"
  from delete_track_200_cache [OF a]
  show "top_tracks_key (snd (delete_track tid w)) = None" by simp
  assume l: "0 \<le> limit_of q"
  from delete_track_200_cache [OF a]
  have "redis_get t (snd (delete_track tid w)) = Inr None" by (simp add: redis_get_cleared)
  from top_tracks_miss [OF this l]
  show "fst (top_tracks t q (snd (delete_track tid w))) =
             (200, Tracks (take (nat (limit_of q)) (ranked (tracks (snd (delete_track tid w))))))"
    by simp
qed


theorem cache_cleared_after_generation_and_deletion_witness:
  "fst (fst (generate (env_of [pick ''A'' (JNum 0.9)]) (Some (JStr ''calm'')) world0)) = 200
   \<and> top_tracks_key world0 = Some ([track_B], 100)
   \<and> fst (top_tracks 50 None (snd (generate (env_of [pick ''A'' (JNum 0.9)]) (Some (JStr ''calm'')) world0)))
       = (200, Tracks [track_B, track_A\<lparr>selection_count := 1\<rparr>])
   \<and> fst (fst (delete_track ''B'' world0)) = 200
   \<and> fst (top_tracks 50 None (snd (delete_track ''B'' world0))) = (200, Tracks [])"
proof -
  let ?g = "generate (env_of [pick ''A'' (JNum 0.9)]) (Some (JStr ''calm'')) world0"
  have g1: "fst (fst ?g) = 200"
    unfolding generate_sample by (simp add: sample_defs)
  have g2: "tracks (snd ?g) = [track_A\<lparr>selection_count := 1\<rparr>, track_B]"
    unfolding generate_sample by (simp add: sample_defs)
  have d1: "fst (fst (delete_track ''B'' world0)) = 200"
    by (simp add: delete_track_def single_def redis_del_def world0_def track_A_def track_B_def)
  have d2: "tracks (snd (delete_track ''B'' world0)) = [track_A]"
    by (simp add: delete_track_def single_def redis_del_def world0_def track_A_def track_B_def)
  have l: "0 \<le> limit_of None" by (simp add: limit_of_None)
  note t = cache_cleared_after_generation_and_deletion
    [of "env_of [pick ''A'' (JNum 0.9)]" "Some (JStr ''calm'')" world0 None 50 "''B''"]
  from t g1 l have "fst (top_tracks 50 None (snd ?g)) =
      (200, Tracks (take (nat (limit_of None)) (ranked (tracks (snd ?g)))))"
    by blast
  then have 1: "fst (top_tracks 50 None (snd ?g)) = (200, Tracks [track_B, track_A\<lparr>selection_count := 1\<rparr>])"
    unfolding g2 by (simp add: limit_of_None ranked_def track_A_def track_B_def)
  from t d1 l have "fst (top_tracks 50 None (snd (delete_track ''B'' world0))) =
      (200, Tracks (take (nat (limit_of None)) (ranked (tracks (snd (delete_track ''B'' world0))))))"
    by blast
  then have 2: "fst (top_tracks 50 None (snd (delete_track ''B'' world0))) = (200, Tracks [])"
    unfolding d2 by (simp add: limit_of_None ranked_def track_A_def)
  have "top_tracks_key world0 = Some ([track_B], 100)" by (simp add: world0_def)
  with g1 1 d1 2 show ?thesis by blast
qed


section \<open>Usage counters\<close>

text \<open>
  C7, as the code has it. A generation that answers 200 writes, for every entry it
  creates, the counter of the entry's track as the value read at the start of the
  request plus 1 (line 249). So the counter of every track that appears in the created
  playlist ends exactly 1 above its value before the request, however many entries
  name the track, and every other counter is unchanged. Consequently a track that
  appears in each of K playlists generated one after the other ends K above its
  initial counter.
\<close>

theorem counter_raised_once_per_playlist:
  "(generate e mood w = ((200, Generated pid m c out), w') \<longrightarrow>
      (\<exists>rows. playlist_tracks w' = playlist_tracks w @ rows
         \<and> map pt_track_id rows = map (\<lambda>s. track_id (sel_track s)) out)
      \<and> count_in x (tracks w') =
          (if x \<in> set (map (\<lambda>s. track_id (sel_track s)) out)
           then map_option (\<lambda>c. c + 1) (count_in x (tracks w))
           else count_in x (tracks w)))
   \<and> (generate_all reqs w = (rs, w'') \<and> list_all (selects x) rs \<longrightarrow>
      count_in x (tracks w'') = map_option (\<lambda>c. c + int (length reqs)) (count_in x (tracks w)))"
  using generate_counts [of e mood w pid m c out w' x] generate_all_counts [of reqs w rs w'' x]
  by blast

theorem counter_raised_once_per_playlist_witness:
  "count_in ''A'' (tracks world0) = Some 0
   \<and> count_in ''A'' (tracks (snd (generate (env_of [pick ''A'' (JNum 0.9), pick ''A'' (JNum 0.2)])
        (Some (JStr ''calm'')) world0))) = Some 1
   \<and> count_in ''B'' (tracks (snd (generate (env_of [pick ''A'' (JNum 0.9), pick ''A'' (JNum 0.2)])
        (Some (JStr ''calm'')) world0))) = Some 3
   \<and> list_all (selects ''A'')
        (fst (generate_all [(env_of [pick ''A'' (JNum 0.9)], Some (JStr ''calm'')),
                            (later_env_of [pick ''B'' (JNum 0.8), pick ''A'' (JNum 0.6)], Some (JStr ''calm''))]
                world0))
   \<and> count_in ''A'' (tracks (snd (generate_all
          [(env_of [pick ''A'' (JNum 0.9)], Some (JStr ''calm'')),
           (later_env_of [pick ''B'' (JNum 0.8), pick ''A'' (JNum 0.6)], Some (JStr ''calm''))]
          world0))) = Some 2"
proof -
  let ?e = "env_of [pick ''A'' (JNum 0.9), pick ''A'' (JNum 0.2)]"
  let ?g = "generate ?e (Some (JStr ''calm'')) world0"
  let ?reqs = "[(env_of [pick ''A'' (JNum 0.9)], Some (JStr ''calm'')),
           (later_env_of [pick ''B'' (JNum 0.8), pick ''A'' (JNum 0.6)], Some (JStr ''calm''))]"
  have c0: "count_in ''A'' (tracks world0) = Some 0" "count_in ''B'' (tracks world0) = Some 3"
    by (simp_all add: count_in_def world0_def track_A_def track_B_def)
  have g: "?g = ((200, Generated ''P1'' ''calm'' 7
        [\<lparr>sel_track = track_A, sel_weight = Some (JNum 0.9), sel_reason = None, sel_position = 1\<rparr>,
         \<lparr>sel_track = track_A, sel_weight = Some (JNum 0.2), sel_reason = None, sel_position = 2\<rparr>]),
       snd ?g)"
    by (simp add: generate_first sample_defs later_env_of_simps prod_eq_iff)
  have sel: "list_all (selects ''A'') (fst (generate_all ?reqs world0))"
    by (simp add: generate_first generate_later sample_defs later_env_of_simps)
  have ga: "generate_all ?reqs world0 = (fst (generate_all ?reqs world0), snd (generate_all ?reqs world0))"
    by simp
  note t = counter_raised_once_per_playlist
  from t [of ?e "Some (JStr ''calm'')" world0 _ _ _ _ "snd ?g" "''A''"] g c0
  have 1: "count_in ''A'' (tracks (snd ?g)) = Some 1" by (simp add: track_A_def)
  from t [of ?e "Some (JStr ''calm'')" world0 _ _ _ _ "snd ?g" "''B''"] g c0
  have 2: "count_in ''B'' (tracks (snd ?g)) = Some 3" by (simp add: track_A_def)
  from t [of _ _ world0 _ _ _ _ _ "''A''" ?reqs "fst (generate_all ?reqs world0)"
      "snd (generate_all ?reqs world0)"] ga sel c0
  have 3: "count_in ''A'' (tracks (snd (generate_all ?reqs world0))) = Some 2" by simp
  from c0 1 2 sel 3 show ?thesis by blast
qed


text \<open>
  C7 as stated fails: here the created playlist has two entries for track \<open>A\<close>, and
  the counter of \<open>A\<close> goes from 0 to 1, not to 2.
\<close>

theorem duplicate_selection_counts_once:
  "map pt_track_id (playlist_tracks (snd (generate
      (env_of [pick ''A'' (JNum 0.9), pick ''B'' (JNum 0.8), pick ''A'' (JNum 0.7)])
      (Some (JStr ''calm'')) world0))) = [''A'', ''B'', ''A'']
   \<and> count_in ''A'' (tracks world0) = Some 0
   \<and> count_in ''A'' (tracks (snd (generate
      (env_of [pick ''A'' (JNum 0.9), pick ''B'' (JNum 0.8), pick ''A'' (JNum 0.7)])
      (Some (JStr ''calm'')) world0))) = Some 1"
  unfolding generate_sample by (simp add: sample_defs count_in_def)



section \<open>Reads of the top tracks\<close>

text \<open>
  C8, as the code has it. \<open>redis.get\<close> is awaited inside the \<open>try\<close> block of the route
  (line 287) and nothing catches its failure before the route's own \<open>catch\<close>: while
  Redis does not answer, every GET /api/stats/top-tracks answers 500 and changes
  nothing. When Redis answers and holds no unexpired entry, the list is recomputed
  from the tracks table (counter above zero, highest counter first, at most as many
  as the limit, 10 by default), stored for 300 seconds and returned.
\<close>

theorem top_tracks_fails_without_cache:
  "(\<not> redis_up w \<longrightarrow> top_tracks t q w = ((500, Error ''Failed to fetch top tracks''), w))
   \<and> (redis_get t w = Inr None \<and> 0 \<le> limit_of q \<longrightarrow>
        top_tracks t q w =
          ((200, Tracks (take (nat (limit_of q)) (ranked (tracks w)))),
           w\<lparr>top_tracks_key := Some (take (nat (limit_of q)) (ranked (tracks w)), t + 300)\<rparr>))
   \<and> limit_of None = 10
   \<and> set (ranked ts) = {x \<in> set ts. 0 < selection_count x}
   \<and> sorted_wrt (\<lambda>a b. selection_count b \<le> selection_count a) (ranked ts)"
  using top_tracks_down [of w t q] top_tracks_miss [of t w q] limit_of_None set_ranked [of ts]
    ranked_descending [of ts]
  by blast

theorem top_tracks_fails_without_cache_witness:
  "\<not> redis_up (world0\<lparr>redis_up := False\<rparr>)
   \<and> top_tracks 50 (Some ''5'') (world0\<lparr>redis_up := False\<rparr>)
       = ((500, Error ''Failed to fetch top tracks''), world0\<lparr>redis_up := False\<rparr>)
   \<and> redis_get 150 world0 = Inr None \<and> 0 \<le> limit_of (Some ''5'')
   \<and> top_tracks 150 (Some ''5'') world0
       = ((200, Tracks [track_B]), world0\<lparr>top_tracks_key := Some ([track_B], 450)\<rparr>)"
proof -
  have a: "\<not> redis_up (world0\<lparr>redis_up := False\<rparr>)" by simp
  have b: "redis_get 150 world0 = Inr None" by (simp add: redis_get_def world0_def)
  have c: "0 \<le> limit_of (Some ''5'')" by (simp add: parse_defs)
  have r: "take (nat (limit_of (Some ''5''))) (ranked (tracks world0)) = [track_B]"
    by (simp add: parse_defs ranked_def world0_def track_A_def track_B_def)
  note t = top_tracks_fails_without_cache
  from t [of "world0\<lparr>redis_up := False\<rparr>" 50 "Some ''5''"] a
  have 1: "top_tracks 50 (Some ''5'') (world0\<lparr>redis_up := False\<rparr>)
       = ((500, Error ''Failed to fetch top tracks''), world0\<lparr>redis_up := False\<rparr>)"
    by blast
  from t [of world0 150 "Some ''5''"] b c
  have 2: "top_tracks 150 (Some ''5'') world0
       = ((200, Tracks [track_B]), world0\<lparr>top_tracks_key := Some ([track_B], 450)\<rparr>)"
    unfolding r by simp
  from a 1 b c 2 show ?thesis by blast
qed


text \<open>C8 as stated fails: with Redis unreachable the read answers 500.\<close>

theorem unreachable_cache_fails_the_read:
  "fst (top_tracks 50 None (world0\<lparr>redis_up := False\<rparr>)) = (500, Error ''Failed to fetch top tracks'')"
  by (simp add: top_tracks_def top_tracks_try_def redis_get_def)

text \<open>
  C10. While Redis answers and holds an entry that has not expired, the route returns
  the cached list as it was stored, whatever the \<open>limit\<close> parameter is. The limit is
  \<open>parseInt\<close> of the parameter, or 10 when that is \<open>NaN\<close> or zero; on a miss (with a
  limit that is not negative) the recomputed list has at most that many tracks.
\<close>

theorem cached_snapshot_ignores_limit:
  "(redis_up w \<and> top_tracks_key w = Some (cached, expiry) \<and> t < expiry \<longrightarrow>
      top_tracks t q w = ((200, Tracks cached), w))
   \<and> (parseInt q = None \<or> parseInt q = Some 0 \<longrightarrow> limit_of q = 10)
   \<and> (parseInt q = Some n \<and> n \<noteq> 0 \<longrightarrow> limit_of q = n)
   \<and> (redis_get t w = Inr None \<and> 0 \<le> limit_of q \<longrightarrow>
        fst (top_tracks t q w) = (200, Tracks (take (nat (limit_of q)) (ranked (tracks w))))
        \<and> length (take (nat (limit_of q)) (ranked (tracks w))) \<le> nat (limit_of q))"
  using top_tracks_hit [of w cached expiry t q] top_tracks_miss [of t w q]
  by (auto simp: limit_of_def)

theorem cached_snapshot_ignores_limit_witness:
  "top_tracks 50 (Some ''1'') (world0\<lparr>tracks := [track_A\<lparr>selection_count := 5\<rparr>, track_B]\<rparr>)
     = ((200, Tracks [track_B]), world0\<lparr>tracks := [track_A\<lparr>selection_count := 5\<rparr>, track_B]\<rparr>)
   \<and> top_tracks 50 (Some ''0'') world0 = ((200, Tracks [track_B]), world0)
   \<and> limit_of (Some ''abc'') = 10 \<and> limit_of (Some ''0'') = 10 \<and> limit_of None = 10
   \<and> limit_of (Some ''1'') = 1
   \<and> fst (top_tracks 150 (Some ''1'') (world0\<lparr>tracks := [track_A\<lparr>selection_count := 5\<rparr>, track_B]\<rparr>))
       = (200, Tracks [track_A\<lparr>selection_count := 5\<rparr>])"
proof -
  let ?w = "world0\<lparr>tracks := [track_A\<lparr>selection_count := 5\<rparr>, track_B]\<rparr>"
  note t = cached_snapshot_ignores_limit
  have k: "redis_up ?w \<and> top_tracks_key ?w = Some ([track_B], 100) \<and> (50::nat) < 100"
    "redis_up world0 \<and> top_tracks_key world0 = Some ([track_B], 100) \<and> (50::nat) < 100"
    by (simp_all add: world0_def)
  from t [of ?w "[track_B]" 100 50 "Some ''1''"] k
  have 1: "top_tracks 50 (Some ''1'') ?w = ((200, Tracks [track_B]), ?w)" by blast
  from t [of world0 "[track_B]" 100 50 "Some ''0''"] k
  have 2: "top_tracks 50 (Some ''0'') world0 = ((200, Tracks [track_B]), world0)" by blast
  from t [of _ _ _ _ "Some ''abc''"] parse_samples
  have 3: "limit_of (Some ''abc'') = 10" by blast
  from t [of _ _ _ _ "Some ''0''"] parse_samples
  have 4: "limit_of (Some ''0'') = 10" by blast
  from t [of _ _ _ _ None]
  have 5: "limit_of None = 10" by (simp add: parseInt_def)
  from t [of _ _ _ _ "Some ''1''" 1] parse_samples
  have 6: "limit_of (Some ''1'') = 1" by simp
  have m: "redis_get 150 ?w = Inr None" by (simp add: redis_get_def world0_def)
  from t [of ?w _ _ 150 "Some ''1''"] m 6
  have 7: "fst (top_tracks 150 (Some ''1'') ?w) = (200, Tracks [track_A\<lparr>selection_count := 5\<rparr>])"
    by (simp add: ranked_def world0_def track_A_def track_B_def)
  from 1 2 3 4 5 6 7 show ?thesis by blast
qed


section \<open>Unknown identifiers\<close>

text \<open>
  C9. An id that names no playlist makes \<open>.single()\<close> report an error, which
  GET /api/playlists/:id throws (line 354) and its \<open>catch\<close> block answers with 500,
  not 404. DELETE /api/tracks/:id tests the same error (line 375) and answers 404.
\<close>

theorem unknown_playlist_is_500:
  "((\<forall>p \<in> set (playlists w). playlist_id p \<noteq> pid) \<longrightarrow>
      get_playlist pid w = ((500, Error ''Failed to fetch playlist''), w))
   \<and> ((\<forall>x \<in> set (tracks w). track_id x \<noteq> tid) \<longrightarrow>
      delete_track tid w = ((404, Error ''Track not found''), w))"
proof (intro conjI impI)
  assume "\<forall>p \<in> set (playlists w). playlist_id p \<noteq> pid"
  then have "filter (\<lambda>p. playlist_id p = pid) (playlists w) = []"
    by (simp add: filter_empty_conv)
  then show "get_playlist pid w = ((500, Error ''Failed to fetch playlist''), w)"
    by (simp add: get_playlist_def single_def)
next
  assume "\<forall>x \<in> set (tracks w). track_id x \<noteq> tid"
  then have "filter (\<lambda>t. track_id t = tid) (tracks w) = []"
    by (simp add: filter_empty_conv)
  then show "delete_track tid w = ((404, Error ''Track not found''), w)"
    by (simp add: delete_track_def single_def)
qed

theorem unknown_playlist_is_500_witness:
  "get_playlist ''nope'' world0 = ((500, Error ''Failed to fetch playlist''), world0)
   \<and> delete_track ''nope'' world0 = ((404, Error ''Track not found''), world0)"
  using unknown_playlist_is_500 [of world0 "''nope''" "''nope''"]
  by (simp add: world0_def track_A_def track_B_def)


end
